theory Spec2Isabelle
  imports Complex_Main "HOL-Library.Word" "HOL-Library.AList"
begin

unbundle bit_operations_syntax

section \<open>JavaScript values\<close>

text \<open>
  A JavaScript string is a sequence of 16-bit code units: \<open>length\<close> counts them and
  \<open>charCodeAt\<close> reads one. \<open>js\<close> turns a literal of the theory into such a string.
\<close>

type_synonym jschar = "16 word"
type_synonym jsstring = "jschar list"

definition js :: "string \<Rightarrow> jsstring" where
  "js s = map of_char s"

text \<open>
  The values a payload, an event field or a handler result can hold: what \<open>JSON.parse\<close>
  produces, and \<open>undefined\<close> for a property that is not there. Numbers are exact rationals
  (the doubles' rounding, infinities and NaN are left out); an object is the list of its
  own properties in insertion order.
\<close>

datatype jsval =
    JUndefined
  | JNull
  | JBool bool
  | JNum rat
  | JStr jsstring
  | JArr "jsval list"
  | JObj "(jsstring \<times> jsval) list"

text \<open>An \<open>Error\<close> object, by its \<open>name\<close> and its \<open>message\<close>.\<close>

datatype js_error = JsError (err_name: jsstring) (err_message: jsstring)

text \<open>What a \<open>throw\<close> can carry: an \<open>Error\<close> object or any other value.\<close>

datatype thrown = ThrowError js_error | ThrowValue jsval

text \<open>\<open>class WebhookVerificationError extends LicenseChainException\<close> (exceptions.ts).\<close>

definition WebhookVerificationError :: "jsstring \<Rightarrow> js_error" where
  "WebhookVerificationError message = JsError (js ''WebhookVerificationError'') message"

text \<open>\<open>Error.prototype.toString\<close>, which the template literal \<open>${error}\<close> calls.\<close>

definition error_toString :: "js_error \<Rightarrow> jsstring" where
  "error_toString e =
     (if err_name e = [] then err_message e
      else if err_message e = [] then err_name e
      else err_name e @ js '': '' @ err_message e)"

text \<open>\<open>ToBoolean\<close>: what \<open>!x\<close> and \<open>x || y\<close> test.\<close>

fun truthy :: "jsval \<Rightarrow> bool" where
  "truthy JUndefined = False"
| "truthy JNull = False"
| "truthy (JBool b) = b"
| "truthy (JNum n) = (n \<noteq> 0)"
| "truthy (JStr s) = (s \<noteq> [])"
| "truthy (JArr xs) = True"
| "truthy (JObj kvs) = True"

text \<open>
  \<open>payload.name\<close> for the property names the verifier reads (\<open>id\<close>, \<open>type\<close>, \<open>event\<close>,
  \<open>created_at\<close>, \<open>createdAt\<close>, \<open>data\<close>, \<open>object\<close>; none is a built-in property of a
  string, number, boolean or array): reading a property of \<open>null\<close> or \<open>undefined\<close> throws
  a TypeError (message as V8 words it), a missing property reads as \<open>undefined\<close>.
\<close>

definition null_property_error :: "jsstring \<Rightarrow> jsstring \<Rightarrow> js_error" where
  "null_property_error what name =
     JsError (js ''TypeError'')
       (js ''Cannot read properties of '' @ what @ js '' (reading '' @ [0x27] @ name @ [0x27] @ js '')'')"

fun get_prop :: "jsval \<Rightarrow> jsstring \<Rightarrow> js_error + jsval" where
  "get_prop JNull name = Inl (null_property_error (js ''null'') name)"
| "get_prop JUndefined name = Inl (null_property_error (js ''undefined'') name)"
| "get_prop (JObj kvs) name = Inr (case map_of kvs name of None \<Rightarrow> JUndefined | Some v \<Rightarrow> v)"
| "get_prop v name = Inr JUndefined"

text \<open>A parameter with a default value: the default applies when the argument is left out.\<close>

definition with_default :: "'a \<Rightarrow> 'a option \<Rightarrow> 'a" where
  "with_default d a = (case a of None \<Rightarrow> d | Some x \<Rightarrow> x)"

text \<open>\<open>try { body } catch (e) { handler }\<close>.\<close>

definition try_catch :: "('e + 'a) \<Rightarrow> ('e \<Rightarrow> 'f + 'a) \<Rightarrow> 'f + 'a" where
  "try_catch body handler = (case body of Inl e \<Rightarrow> handler e | Inr x \<Rightarrow> Inr x)"

text \<open>
  \<open>String.prototype.toLowerCase\<close>. Only the ASCII letters are mapped. Outside ASCII the
  Unicode mapping yields an ASCII letter for the Kelvin sign alone (\<open>k\<close>, which no
  algorithm name contains), so a string lower-cases to \<open>sha1\<close>, \<open>sha256\<close> or \<open>sha512\<close>
  under this mapping exactly when it does under the full one, and the \<open>switch\<close> of
  \<open>generateSignature\<close> takes the same branch.
\<close>

definition toLowerCase_unit :: "jschar \<Rightarrow> jschar" where
  "toLowerCase_unit c = (if 0x41 \<le> c \<and> c \<le> 0x5A then c + 0x20 else c)"

definition toLowerCase :: "jsstring \<Rightarrow> jsstring" where
  "toLowerCase s = map toLowerCase_unit s"

section \<open>The runtime\<close>

text \<open>
  What the verifier calls outside this repository: the three HMAC functions of crypto-js
  (payload and secret to the hex digest; they throw on a string that is not well-formed
  UTF-16), \<open>JSON.parse\<close>, the time value of \<open>new Date(v)\<close> (\<open>None\<close> is NaN, an invalid
  date) and the time value of \<open>new Date()\<close>. A time value is a whole number of
  milliseconds, at most 8640000000000000 from the epoch.
\<close>

record js_env =
  HmacSHA1 :: "jsstring \<Rightarrow> jsstring \<Rightarrow> js_error + jsstring"
  HmacSHA256 :: "jsstring \<Rightarrow> jsstring \<Rightarrow> js_error + jsstring"
  HmacSHA512 :: "jsstring \<Rightarrow> jsstring \<Rightarrow> js_error + jsstring"
  JSON_parse :: "jsstring \<Rightarrow> js_error + jsval"
  new_Date :: "jsval \<Rightarrow> js_error + int option"
  current_time :: int

section \<open>WebhookVerifier\<close>

record WebhookEvent =
  ev_id :: jsval
  ev_type :: jsval
  ev_createdAt :: jsval
  ev_data :: jsval

record WebhookVerifier =
  secret :: jsstring

definition new_WebhookVerifier :: "jsstring \<Rightarrow> js_error + WebhookVerifier" where
  "new_WebhookVerifier s =
     (if s = [] then Inl (WebhookVerificationError (js ''Webhook secret is required''))
      else Inr \<lparr>secret = s\<rparr>)"

text \<open>\<open>charCodeAt\<close> is NaN out of range, and the bitwise operators read NaN as 0.\<close>

definition charCodeAt :: "jsstring \<Rightarrow> nat \<Rightarrow> jschar option" where
  "charCodeAt s i = (if i < length s then Some (s ! i) else None)"

definition to_int32 :: "jschar option \<Rightarrow> 32 word" where
  "to_int32 c = (case c of None \<Rightarrow> 0 | Some u \<Rightarrow> ucast u)"

function secureCompare_loop :: "jsstring \<Rightarrow> jsstring \<Rightarrow> nat \<Rightarrow> 32 word \<Rightarrow> 32 word" where
  "secureCompare_loop a b i result =
     (if i < length a
      then secureCompare_loop a b (i + 1)
             (result OR (to_int32 (charCodeAt a i) XOR to_int32 (charCodeAt b i)))
      else result)"
  by pat_completeness auto
termination
  by (relation "measure (\<lambda>(a, b, i, result). length a - i)") auto

declare secureCompare_loop.simps [simp del]

definition secureCompare :: "jsstring \<Rightarrow> jsstring \<Rightarrow> bool" where
  "secureCompare a b =
     (if a = [] \<or> b = [] \<or> length a \<noteq> length b then False
      else secureCompare_loop a b 0 0 = 0)"

definition generateSignature ::
  "js_env \<Rightarrow> WebhookVerifier \<Rightarrow> jsstring \<Rightarrow> jsstring option \<Rightarrow> js_error + jsstring" where
  "generateSignature env this payload algorithm_arg =
     (let algorithm = with_default (js ''sha256'') algorithm_arg;
          selector = toLowerCase algorithm;
          hash =
            (if selector = js ''sha1'' then HmacSHA1 env payload (secret this)
             else if selector = js ''sha256'' then HmacSHA256 env payload (secret this)
             else if selector = js ''sha512'' then HmacSHA512 env payload (secret this)
             else Inl (WebhookVerificationError (js ''Unsupported algorithm: '' @ algorithm)))
      in case hash of
           Inl e \<Rightarrow> Inl e
         | Inr h \<Rightarrow> Inr (algorithm @ js ''='' @ h))"

definition verifySignature ::
  "js_env \<Rightarrow> WebhookVerifier \<Rightarrow> jsstring \<Rightarrow> jsstring \<Rightarrow> jsstring option \<Rightarrow> js_error + bool" where
  "verifySignature env this payload signature algorithm_arg =
     (let algorithm = with_default (js ''sha256'') algorithm_arg
      in try_catch
           (case generateSignature env this payload (Some algorithm) of
              Inl e \<Rightarrow> Inl e
            | Inr expectedSignature \<Rightarrow> Inr (secureCompare signature expectedSignature))
           (\<lambda>e. Inr False))"

definition verifyEventType :: "WebhookEvent \<Rightarrow> jsval \<Rightarrow> bool" where
  "verifyEventType payload expectedType = (ev_type payload = expectedType)"

text \<open>
  Sequencing of two steps that may throw, and \<open>a || b\<close> over such steps: the right
  operand is evaluated only when the left one is falsy.
\<close>

definition and_then :: "'e + 'a \<Rightarrow> ('a \<Rightarrow> 'e + 'b) \<Rightarrow> 'e + 'b" where
  "and_then m f = (case m of Inl e \<Rightarrow> Inl e | Inr x \<Rightarrow> f x)"

definition or_else :: "js_error + jsval \<Rightarrow> js_error + jsval \<Rightarrow> js_error + jsval" where
  "or_else a b = (case a of Inl e \<Rightarrow> Inl e | Inr x \<Rightarrow> if truthy x then Inr x else b)"

definition extractEventData :: "jsval \<Rightarrow> js_error + WebhookEvent" where
  "extractEventData payload =
     and_then (get_prop payload (js ''id'')) (\<lambda>v_id.
     and_then (or_else (get_prop payload (js ''type'')) (get_prop payload (js ''event''))) (\<lambda>v_type.
     and_then (or_else (get_prop payload (js ''created_at''))
                       (get_prop payload (js ''createdAt''))) (\<lambda>v_createdAt.
     and_then (or_else (or_else (get_prop payload (js ''data''))
                                (get_prop payload (js ''object'')))
                       (Inr (JObj []))) (\<lambda>v_data.
     Inr \<lparr>ev_id = v_id, ev_type = v_type, ev_createdAt = v_createdAt, ev_data = v_data\<rparr>))))"

definition parsePayload ::
  "js_env \<Rightarrow> WebhookVerifier \<Rightarrow> jsstring \<Rightarrow> jsstring \<Rightarrow> jsstring option \<Rightarrow> js_error + WebhookEvent" where
  "parsePayload env this payload signature algorithm_arg =
     (let algorithm = with_default (js ''sha256'') algorithm_arg
      in and_then (verifySignature env this payload signature (Some algorithm)) (\<lambda>verified.
           if \<not> verified
           then Inl (WebhookVerificationError (js ''Invalid webhook signature''))
           else try_catch
                  (and_then (JSON_parse env payload) (\<lambda>data. extractEventData data))
                  (\<lambda>error. Inl (WebhookVerificationError
                                   (js ''Invalid JSON payload: '' @ error_toString error)))))"

text \<open>
  The difference of two time values is a double: exact below \<open>2 ^ 53\<close>. From there up to
  \<open>2 ^ 54\<close>, which no difference of two time values reaches, the doubles are the even
  numbers, and an odd difference goes to its neighbour that is a multiple of four (round
  half to even).
\<close>

definition double_of_int :: "int \<Rightarrow> int" where
  "double_of_int n =
     (if \<bar>n\<bar> < 2 ^ 53 \<or> even n then n
      else if even (n div 2) then n - 1
      else n + 1)"

text \<open>
  The tolerance is a whole number of seconds, as the default is. The quotient by 1000 is
  then compared exactly: it is a multiple of 1/1000, below \<open>2 ^ 44\<close>, where two doubles
  are less than 1/500 apart, so that rounding it to a double cannot carry it across a whole
  number. A fractional tolerance is outside the model. \<open>new Date(timestamp)\<close> stands
  inside the \<open>try\<close>.
\<close>

definition verifyTimestamp :: "js_env \<Rightarrow> WebhookEvent \<Rightarrow> int option \<Rightarrow> js_error + bool" where
  "verifyTimestamp env payload tolerance_arg =
     (let tolerance = with_default 300 tolerance_arg;
          timestamp = ev_createdAt payload
      in if \<not> truthy timestamp then Inr True
         else try_catch
                (and_then (new_Date env timestamp) (\<lambda>eventTime.
                   Inr (case eventTime of
                          None \<Rightarrow> False
                        | Some t \<Rightarrow>
                            \<bar>rat_of_int (double_of_int (current_time env - t)) / 1000\<bar>
                              \<le> rat_of_int tolerance)))
                (\<lambda>e. Inr False))"

section \<open>WebhookHandler\<close>

type_synonym event_handler = "WebhookEvent \<Rightarrow> thrown + jsval"

text \<open>
  The handler table is a JavaScript \<open>Map\<close>: \<open>set\<close> replaces the value of a key in place
  or appends a new key, \<open>delete\<close> removes the key, \<open>get\<close> finds only the string keys that
  were set.
\<close>

record WebhookHandler =
  verifier :: WebhookVerifier
  handlers :: "(jsstring \<times> event_handler) list"

definition Map_get :: "(jsstring \<times> 'v) list \<Rightarrow> jsval \<Rightarrow> 'v option" where
  "Map_get m key = (case key of JStr k \<Rightarrow> map_of m k | _ \<Rightarrow> None)"

definition processed :: "string \<Rightarrow> jsval" where
  "processed name = JObj [(js ''status'', JStr (js ''processed'')), (js ''event'', JStr (js name))]"

definition handleLicenseCreated :: event_handler where
  "handleLicenseCreated event = Inr (processed ''license.created'')"

definition handleLicenseUpdated :: event_handler where
  "handleLicenseUpdated event = Inr (processed ''license.updated'')"

definition handleLicenseRevoked :: event_handler where
  "handleLicenseRevoked event = Inr (processed ''license.revoked'')"

definition handleLicenseExpired :: event_handler where
  "handleLicenseExpired event = Inr (processed ''license.expired'')"

definition handleLicenseValidated :: event_handler where
  "handleLicenseValidated event = Inr (processed ''license.validated'')"

definition handleAppCreated :: event_handler where
  "handleAppCreated event = Inr (processed ''app.created'')"

definition handleAppUpdated :: event_handler where
  "handleAppUpdated event = Inr (processed ''app.updated'')"

definition handleAppDeleted :: event_handler where
  "handleAppDeleted event = Inr (processed ''app.deleted'')"

definition handleUserCreated :: event_handler where
  "handleUserCreated event = Inr (processed ''user.created'')"

definition handleUserUpdated :: event_handler where
  "handleUserUpdated event = Inr (processed ''user.updated'')"

definition handleUnknownEvent :: event_handler where
  "handleUnknownEvent event =
     Inr (JObj [(js ''status'', JStr (js ''ignored'')), (js ''event'', ev_type event)])"

definition setupDefaultHandlers :: "WebhookHandler \<Rightarrow> WebhookHandler" where
  "setupDefaultHandlers this =
     this\<lparr>handlers :=
       fold (\<lambda>(eventType, handler). AList.update eventType handler)
         [(js ''license.created'', handleLicenseCreated),
          (js ''license.updated'', handleLicenseUpdated),
          (js ''license.revoked'', handleLicenseRevoked),
          (js ''license.expired'', handleLicenseExpired),
          (js ''license.validated'', handleLicenseValidated),
          (js ''app.created'', handleAppCreated),
          (js ''app.updated'', handleAppUpdated),
          (js ''app.deleted'', handleAppDeleted),
          (js ''user.created'', handleUserCreated),
          (js ''user.updated'', handleUserUpdated)]
         (handlers this)\<rparr>"

definition new_WebhookHandler :: "jsstring \<Rightarrow> js_error + WebhookHandler" where
  "new_WebhookHandler s =
     and_then (new_WebhookVerifier s) (\<lambda>v.
       Inr (setupDefaultHandlers \<lparr>verifier = v, handlers = []\<rparr>))"

definition on :: "WebhookHandler \<Rightarrow> jsstring \<Rightarrow> event_handler \<Rightarrow> WebhookHandler" where
  "on this eventType handler =
     this\<lparr>handlers := AList.update eventType handler (handlers this)\<rparr>"

definition off :: "WebhookHandler \<Rightarrow> jsstring \<Rightarrow> WebhookHandler" where
  "off this eventType = this\<lparr>handlers := AList.delete eventType (handlers this)\<rparr>"

definition getVerifier :: "WebhookHandler \<Rightarrow> WebhookVerifier" where
  "getVerifier this = verifier this"

definition getHandlers :: "WebhookHandler \<Rightarrow> jsstring list" where
  "getHandlers this = map fst (handlers this)"

definition clearHandlers :: "WebhookHandler \<Rightarrow> WebhookHandler" where
  "clearHandlers this = this\<lparr>handlers := []\<rparr>"

definition handleEvent :: "WebhookHandler \<Rightarrow> WebhookEvent \<Rightarrow> thrown + jsval" where
  "handleEvent this event =
     (let handler = (case Map_get (handlers this) (ev_type event) of
                       Some h \<Rightarrow> h
                     | None \<Rightarrow> handleUnknownEvent)
      in handler event)"

text \<open>The decimal name of an array index, as a property key.\<close>

function index_key :: "nat \<Rightarrow> jsstring" where
  "index_key n =
     (if n < 10 then [of_nat (48 + n)] else index_key (n div 10) @ [of_nat (48 + n mod 10)])"
  by pat_completeness auto
termination
  by (relation "measure (\<lambda>n. n)") auto

declare index_key.simps [simp del]

text \<open>
  The own enumerable properties that \<open>...result\<close> copies: those of an object, the indexed
  elements of an array or of a string, none for the other values.
\<close>

fun own_props :: "jsval \<Rightarrow> (jsstring \<times> jsval) list" where
  "own_props (JObj kvs) = kvs"
| "own_props (JArr xs) = zip (map index_key [0..<length xs]) xs"
| "own_props (JStr s) = zip (map index_key [0..<length s]) (map (\<lambda>c. JStr [c]) s)"
| "own_props v = []"

text \<open>
  \<open>{ ...props, ...result }\<close>: each copied property replaces the value of a key already
  there, keeping its place, or is appended. (JavaScript lists integer-like keys before
  the others; the order of the keys of an envelope is not relied on.)
\<close>

definition spread :: "(jsstring \<times> jsval) list \<Rightarrow> jsval \<Rightarrow> jsval" where
  "spread props result = JObj (fold (\<lambda>(k, v). AList.update k v) (own_props result) props)"

definition event_value :: "WebhookEvent \<Rightarrow> jsval" where
  "event_value event =
     JObj [(js ''id'', ev_id event), (js ''type'', ev_type event),
           (js ''createdAt'', ev_createdAt event), (js ''data'', ev_data event)]"

definition error_message :: "thrown \<Rightarrow> jsstring" where
  "error_message error =
     (case error of ThrowError e \<Rightarrow> err_message e | ThrowValue v \<Rightarrow> js ''Unknown error'')"

definition handle ::
  "js_env \<Rightarrow> WebhookHandler \<Rightarrow> jsstring \<Rightarrow> jsstring \<Rightarrow> jsstring option \<Rightarrow> thrown + jsval" where
  "handle env this payload signature algorithm_arg =
     (let algorithm = with_default (js ''sha256'') algorithm_arg
      in try_catch
           (case parsePayload env (verifier this) payload signature (Some algorithm) of
              Inl e \<Rightarrow> Inl (ThrowError e)
            | Inr event \<Rightarrow>
                (case verifyTimestamp env event None of
                   Inl e \<Rightarrow> Inl (ThrowError e)
                 | Inr timely \<Rightarrow>
                     if \<not> timely
                     then Inl (ThrowError (WebhookVerificationError
                                             (js ''Webhook timestamp is too old'')))
                     else and_then (handleEvent this event) (\<lambda>result.
                            Inr (spread [(js ''valid'', JBool True),
                                         (js ''event'', event_value event)] result))))
           (\<lambda>error. Inr (JObj [(js ''valid'', JBool False),
                                (js ''error'', JStr (error_message error))])))"

text \<open>\<open>obj.name\<close> on a result envelope, and \<open>String.prototype.includes\<close>.\<close>

definition read_prop :: "jsval \<Rightarrow> string \<Rightarrow> jsval" where
  "read_prop v name = (case get_prop v (js name) of Inl e \<Rightarrow> JUndefined | Inr x \<Rightarrow> x)"

fun js_includes :: "jsstring \<Rightarrow> jsstring \<Rightarrow> bool" where
  "js_includes [] needle = (needle = [])"
| "js_includes (c # cs) needle = (take (length needle) (c # cs) = needle \<or> js_includes cs needle)"

section \<open>A recorded run\<close>

text \<open>
  A runtime given by tables: the HMAC digests under the secret \<open>whsec_test\<close>, the
  results of \<open>JSON.parse\<close> and the time values of \<open>new Date\<close> for the payloads below, with
  the clock at 2024-01-01T00:06:40Z. Outside the tables the digest functions throw, a text
  is not JSON and a date is invalid.
\<close>

definition sample_secret :: jsstring where
  "sample_secret = js ''whsec_test''"

definition payload_fresh :: jsstring where
  \<open>payload_fresh = js ''{"type":"license.created","created_at":"2024-01-01T00:05:00Z"}''\<close>

definition payload_stale :: jsstring where
  \<open>payload_stale = js ''{"type":"license.created","created_at":"2024-01-01T00:00:00Z"}''\<close>

definition payload_null :: jsstring where
  \<open>payload_null = js ''null''\<close>

definition payload_unregistered :: jsstring where
  \<open>payload_unregistered = js ''{"type":"unregistered.type"}''\<close>

definition payload_x :: jsstring where
  \<open>payload_x = js ''{"type":"x"}''\<close>

definition payload_malformed :: jsstring where
  \<open>payload_malformed = js ''not json''\<close>

definition payload_epoch :: jsstring where
  \<open>payload_epoch = js ''{"type":"license.created","createdAt":0}''\<close>

definition payload_a :: jsstring where
  "payload_a = js ''a''"

definition payload_b :: jsstring where
  "payload_b = js ''b''"

definition signature_fresh :: jsstring where
  "signature_fresh = js ''sha256=a0dca288755eca9901923307ee4a9028f7d7257643a005b581ed36a9123b29be''"

definition signature_stale :: jsstring where
  "signature_stale = js ''sha256=d56cf9d17192c8047eb5c6fa49a116891fffffab2a90ee1659e1d6b5c706cbd8''"

definition signature_null :: jsstring where
  "signature_null = js ''sha256=eafe6a56406092ba36f8675157a759740d544095ad3341719c5bf31d8d1d88e4''"

definition signature_unregistered :: jsstring where
  "signature_unregistered = js ''sha256=6c1b3d23590ea171ae3e1265bc0a1f983594e0c8b5df47f50d97792836ea4297''"

definition signature_x :: jsstring where
  "signature_x = js ''sha256=eb7a707b60529bc9f38d1b5502431b259e1adb3aae799f58c1782490067297ef''"

definition signature_malformed :: jsstring where
  "signature_malformed = js ''sha256=1e0ac5fc5323736ef15042f0a81247010d14b4662d47e5b1fb78f3f50eb44ea5''"

definition signature_epoch :: jsstring where
  "signature_epoch = js ''sha256=2e4d53774534d12bc2c659c8089faadfdee7f0a09ced5805b84219d3ea6de491''"

definition signature_a :: jsstring where
  "signature_a = js ''sha256=57a024802aa87e885e1c8e7d55e8e46452906051cbfbe2d7cb40954c4a834fad''"

definition sample_digests_sha1 :: "((jsstring \<times> jsstring) \<times> jsstring) list" where
  "sample_digests_sha1 =
     [((payload_a, sample_secret), js ''e5b0e9c7c82774ec5a403891cfbbc2a04c13ff8e''),
      ((payload_b, sample_secret), js ''4e8037948a3ffbf10a75f446c61eff26a36e3bb7'')]"

definition sample_digests_sha512 :: "((jsstring \<times> jsstring) \<times> jsstring) list" where
  "sample_digests_sha512 =
     [((payload_a, sample_secret),
       js ''7fc49584beed4d523ec10cf9552a385e0c272aad21a2a7a67a223e780e2e09e0fda1f62a22434d2211cb5ed2e08b2c98eff1274fc3fd98e470759be2130fe5ed''),
      ((payload_b, sample_secret),
       js ''906e44f3a6981a27564a888a2c46d28d67ae67b7f4f3af5838b6d514c9c73643267ac63f5f9fcc32778b6a25f9efb4d8dcaa0a04f26e22cdcf415a5f5bac967d'')]"

definition sample_digests_sha256 :: "((jsstring \<times> jsstring) \<times> jsstring) list" where
  "sample_digests_sha256 =
     [((payload_a, sample_secret), js ''57a024802aa87e885e1c8e7d55e8e46452906051cbfbe2d7cb40954c4a834fad''),
      ((payload_b, sample_secret), js ''45fa19fd1ce80a65fab06f674511284cf5bf2b871b271eae6ef9fa3e2e9e84bb''),
      ((payload_fresh, sample_secret), js ''a0dca288755eca9901923307ee4a9028f7d7257643a005b581ed36a9123b29be''),
      ((payload_stale, sample_secret), js ''d56cf9d17192c8047eb5c6fa49a116891fffffab2a90ee1659e1d6b5c706cbd8''),
      ((payload_null, sample_secret), js ''eafe6a56406092ba36f8675157a759740d544095ad3341719c5bf31d8d1d88e4''),
      ((payload_unregistered, sample_secret), js ''6c1b3d23590ea171ae3e1265bc0a1f983594e0c8b5df47f50d97792836ea4297''),
      ((payload_x, sample_secret), js ''eb7a707b60529bc9f38d1b5502431b259e1adb3aae799f58c1782490067297ef''),
      ((payload_malformed, sample_secret), js ''1e0ac5fc5323736ef15042f0a81247010d14b4662d47e5b1fb78f3f50eb44ea5''),
      ((payload_epoch, sample_secret), js ''2e4d53774534d12bc2c659c8089faadfdee7f0a09ced5805b84219d3ea6de491'')]"

definition recorded_digest ::
  "((jsstring \<times> jsstring) \<times> jsstring) list \<Rightarrow> jsstring \<Rightarrow> jsstring \<Rightarrow> js_error + jsstring" where
  "recorded_digest table payload key =
     (case map_of table (payload, key) of
        Some digest \<Rightarrow> Inr digest
      | None \<Rightarrow> Inl (JsError (js ''URIError'') (js ''URI malformed'')))"

definition sample_time_fresh :: jsstring where
  "sample_time_fresh = js ''2024-01-01T00:05:00Z''"

definition sample_time_stale :: jsstring where
  "sample_time_stale = js ''2024-01-01T00:00:00Z''"

definition sample_JSON_parse :: "jsstring \<Rightarrow> js_error + jsval" where
  "sample_JSON_parse text =
     (case map_of
        [(payload_fresh, JObj [(js ''type'', JStr (js ''license.created'')),
                               (js ''created_at'', JStr sample_time_fresh)]),
         (payload_stale, JObj [(js ''type'', JStr (js ''license.created'')),
                               (js ''created_at'', JStr sample_time_stale)]),
         (payload_null, JNull),
         (payload_unregistered, JObj [(js ''type'', JStr (js ''unregistered.type''))]),
         (payload_x, JObj [(js ''type'', JStr (js ''x''))]),
         (payload_epoch, JObj [(js ''type'', JStr (js ''license.created'')),
                               (js ''createdAt'', JNum 0)])] text of
        Some v \<Rightarrow> Inr v
      | None \<Rightarrow> Inl (JsError (js ''SyntaxError'') (js ''Unexpected token'')))"

definition sample_new_Date :: "jsval \<Rightarrow> js_error + int option" where
  "sample_new_Date v =
     Inr (if v = JStr sample_time_fresh then Some 1704067500000
          else if v = JStr sample_time_stale then Some 1704067200000
          else if v = JNum 0 then Some 0
          else None)"

definition sample_env :: js_env where
  "sample_env =
     \<lparr>HmacSHA1 = recorded_digest sample_digests_sha1,
      HmacSHA256 = recorded_digest sample_digests_sha256,
      HmacSHA512 = recorded_digest sample_digests_sha512,
      JSON_parse = sample_JSON_parse,
      new_Date = sample_new_Date,
      current_time = 1704067600000\<rparr>"

definition sample_verifier :: WebhookVerifier where
  "sample_verifier = \<lparr>secret = sample_secret\<rparr>"

definition sample_handler :: WebhookHandler where
  "sample_handler = setupDefaultHandlers \<lparr>verifier = sample_verifier, handlers = []\<rparr>"

text \<open>A caller's handler that throws \<open>new Error('boom')\<close>.\<close>

definition failing_handler :: event_handler where
  "failing_handler event = Inl (ThrowError (JsError (js ''Error'') (js ''boom'')))"


section \<open>The priority rules in the specification's words\<close>

text \<open>
  The first value of the list that is not absent, and the first value that is truthy;
  the last value when there is none.
\<close>

fun first_present :: "jsval list \<Rightarrow> jsval" where
  "first_present [] = JUndefined"
| "first_present [v] = v"
| "first_present (v # w # vs) = (if v \<noteq> JUndefined then v else first_present (w # vs))"

fun first_truthy :: "jsval list \<Rightarrow> jsval" where
  "first_truthy [] = JUndefined"
| "first_truthy [v] = v"
| "first_truthy (v # w # vs) = (if truthy v then v else first_truthy (w # vs))"


section \<open>Construction\<close>

lemma new_WebhookVerifier_iff:
  "new_WebhookVerifier s = Inr v \<longleftrightarrow> s \<noteq> [] \<and> v = \<lparr>secret = s\<rparr>"
  by (auto simp: new_WebhookVerifier_def)

lemma new_WebhookHandler_sample: "new_WebhookHandler sample_secret = Inr sample_handler"
  by (simp add: new_WebhookHandler_def new_WebhookVerifier_def and_then_def sample_handler_def
      sample_verifier_def sample_secret_def js_def)

lemma default_license_created:
  "new_WebhookHandler s = Inr h \<Longrightarrow>
   Map_get (handlers h) (JStr (js ''license.created'')) = Some handleLicenseCreated"
  by (auto simp: new_WebhookHandler_def new_WebhookVerifier_def and_then_def
      setupDefaultHandlers_def Map_get_def js_def split: if_splits)

section \<open>The signature check\<close>

subsection \<open>The comparison loop\<close>

lemma ucast_16_32_inj: "(ucast (u :: 16 word) :: 32 word) = ucast w \<longleftrightarrow> u = w"
proof
  assume h: "(ucast u :: 32 word) = ucast w"
  have "(ucast (ucast u :: 32 word) :: 16 word) = ucast (ucast w :: 32 word)"
    using h by simp
  then show "u = w"
    by (simp add: ucast_up_ucast_id is_up)
qed simp

lemma xor_zero_iff: "(x :: 32 word) XOR y = 0 \<longleftrightarrow> x = y"
  by (metis xor.right_neutral xor_self_eq xor.assoc xor.left_neutral)

lemma code_units_differ:
  "i < length a \<Longrightarrow> i < length b \<Longrightarrow>
   (to_int32 (charCodeAt a i) XOR to_int32 (charCodeAt b i) = 0) \<longleftrightarrow> a ! i = b ! i"
  by (simp add: charCodeAt_def to_int32_def xor_zero_iff ucast_16_32_inj)

text \<open>
  The accumulator ends at 0 exactly when it started at 0 and the two strings agree from
  position \<open>i\<close> on.
\<close>

lemma secureCompare_loop_zero:
  "length a = length b \<Longrightarrow>
   (secureCompare_loop a b i r = 0) \<longleftrightarrow> (r = 0 \<and> (\<forall>j. i \<le> j \<and> j < length a \<longrightarrow> a ! j = b ! j))"
proof (induction a b i r rule: secureCompare_loop.induct)
  case (1 a b i result)
  show ?case
  proof (cases "i < length a")
    case True
    have step: "secureCompare_loop a b i result =
                secureCompare_loop a b (i + 1)
                  (result OR (to_int32 (charCodeAt a i) XOR to_int32 (charCodeAt b i)))"
      using True by (subst secureCompare_loop.simps) simp
    have ib: "i < length b" using True "1.prems" by simp
    have split: "(\<forall>j. i \<le> j \<and> j < length a \<longrightarrow> a ! j = b ! j) \<longleftrightarrow>
                 (a ! i = b ! i \<and> (\<forall>j. i + 1 \<le> j \<and> j < length a \<longrightarrow> a ! j = b ! j))"
    proof (intro iffI conjI allI impI)
      fix j
      assume h: "a ! i = b ! i \<and> (\<forall>j. i + 1 \<le> j \<and> j < length a \<longrightarrow> a ! j = b ! j)"
        and j: "i \<le> j \<and> j < length a"
      show "a ! j = b ! j"
      proof (cases "j = i")
        case True
        with h show ?thesis by simp
      next
        case False
        with j have "i + 1 \<le> j \<and> j < length a" by simp
        with h show ?thesis by blast
      qed
    qed (use True in auto)
    show ?thesis
      unfolding step "1.IH" [OF True "1.prems"] split
      by (auto simp: or_eq_0_iff code_units_differ [OF True ib])
  next
    case False
    then show ?thesis
      by (subst secureCompare_loop.simps) auto
  qed
qed

lemma secureCompare_iff: "secureCompare a b \<longleftrightarrow> a = b \<and> a \<noteq> []"
proof (cases "a = [] \<or> b = [] \<or> length a \<noteq> length b")
  case True
  then show ?thesis by (auto simp: secureCompare_def)
next
  case False
  then have len: "length a = length b" by simp
  have "secureCompare a b \<longleftrightarrow> (\<forall>j. j < length a \<longrightarrow> a ! j = b ! j)"
    using False by (simp add: secureCompare_def secureCompare_loop_zero [OF len])
  also have "\<dots> \<longleftrightarrow> a = b"
    using len by (auto simp: list_eq_iff_nth_eq)
  finally show ?thesis using False by auto
qed

subsection \<open>Generating and verifying\<close>

lemma generateSignature_default:
  "generateSignature env this payload (Some (with_default (js ''sha256'') algorithm)) =
   generateSignature env this payload algorithm"
  by (simp add: generateSignature_def with_default_def split: option.splits)

lemma generateSignature_shape:
  assumes "generateSignature env this payload algorithm = Inr signature"
  shows "\<exists>digest. signature = with_default (js ''sha256'') algorithm @ js ''='' @ digest"
  using assms by (auto simp: generateSignature_def Let_def split: sum.splits)

lemma generateSignature_nonempty:
  "generateSignature env this payload algorithm = Inr signature \<Longrightarrow> signature \<noteq> []"
  by (auto dest!: generateSignature_shape simp: js_def)

lemma generateSignature_sha256:
  "toLowerCase a = js ''sha256'' \<Longrightarrow>
   generateSignature env this payload (Some a) =
     (case HmacSHA256 env payload (secret this) of
        Inl e \<Rightarrow> Inl e
      | Inr h \<Rightarrow> Inr (a @ js ''='' @ h))"
  by (simp add: generateSignature_def Let_def with_default_def js_def)

lemma generateSignature_sha1:
  "toLowerCase a = js ''sha1'' \<Longrightarrow>
   generateSignature env this payload (Some a) =
     (case HmacSHA1 env payload (secret this) of
        Inl e \<Rightarrow> Inl e
      | Inr h \<Rightarrow> Inr (a @ js ''='' @ h))"
  by (simp add: generateSignature_def Let_def with_default_def js_def)

lemma generateSignature_sha512:
  "toLowerCase a = js ''sha512'' \<Longrightarrow>
   generateSignature env this payload (Some a) =
     (case HmacSHA512 env payload (secret this) of
        Inl e \<Rightarrow> Inl e
      | Inr h \<Rightarrow> Inr (a @ js ''='' @ h))"
  by (simp add: generateSignature_def Let_def with_default_def js_def)

text \<open>
  An algorithm whose lower-case form is one of the three names gets the digest of the
  HMAC function of that name, under the caller's spelling.
\<close>

lemma generateSignature_selected:
  assumes "name = js ''sha1'' \<and> hmac = HmacSHA1 env
           \<or> name = js ''sha256'' \<and> hmac = HmacSHA256 env
           \<or> name = js ''sha512'' \<and> hmac = HmacSHA512 env"
    and "toLowerCase a = name"
  shows "generateSignature env this payload (Some a) =
           (case hmac payload (secret this) of
              Inl e \<Rightarrow> Inl e
            | Inr h \<Rightarrow> Inr (a @ js ''='' @ h))"
  using assms
  by (auto simp: generateSignature_sha1 generateSignature_sha256 generateSignature_sha512)

lemma lower_names:
  "toLowerCase (js ''sha1'') = js ''sha1''"
  "toLowerCase (js ''SHA1'') = js ''sha1''"
  "toLowerCase (js ''sha256'') = js ''sha256''"
  "toLowerCase (js ''SHA256'') = js ''sha256''"
  "toLowerCase (js ''sha512'') = js ''sha512''"
  "toLowerCase (js ''Sha512'') = js ''sha512''"
  by code_simp+

text \<open>
  \<open>verifySignature\<close> returns, and its answer is whether the signature is the one
  \<open>generateSignature\<close> produces for the payload.
\<close>

lemma verifySignature_eq:
  "verifySignature env this payload signature algorithm =
   Inr (generateSignature env this payload algorithm = Inr signature)"
proof (cases "generateSignature env this payload algorithm")
  case (Inl e)
  then show ?thesis
    by (simp add: verifySignature_def try_catch_def generateSignature_default)
next
  case (Inr expected)
  then have "expected \<noteq> []" by (rule generateSignature_nonempty)
  then show ?thesis
    using Inr
    by (auto simp: verifySignature_def try_catch_def generateSignature_default secureCompare_iff)
qed

lemma verifySignature_default:
  "verifySignature env this payload signature (Some (with_default (js ''sha256'') algorithm)) =
   verifySignature env this payload signature algorithm"
  by (simp add: verifySignature_def with_default_def split: option.splits)

lemma verifySignature_parse_independent:
  "verifySignature (env\<lparr>JSON_parse := parse\<rparr>) this payload signature algorithm =
   verifySignature env this payload signature algorithm"
  by (simp add: verifySignature_def generateSignature_def Let_def)

subsection \<open>The recorded run\<close>

lemma sample_env_fields:
  "HmacSHA1 sample_env = recorded_digest sample_digests_sha1"
  "HmacSHA256 sample_env = recorded_digest sample_digests_sha256"
  "HmacSHA512 sample_env = recorded_digest sample_digests_sha512"
  "JSON_parse sample_env = sample_JSON_parse"
  "new_Date sample_env = sample_new_Date"
  "current_time sample_env = 1704067600000"
  by (simp_all add: sample_env_def)

lemma sample_verifier_secret: "secret sample_verifier = sample_secret"
  by (simp add: sample_verifier_def)

lemmas sample_payloads =
  payload_a_def payload_b_def payload_fresh_def payload_stale_def payload_null_def
  payload_unregistered_def payload_x_def payload_malformed_def payload_epoch_def

lemmas sample_signatures =
  signature_a_def signature_fresh_def signature_stale_def signature_null_def
  signature_unregistered_def signature_x_def signature_malformed_def

lemma sample_HmacSHA256:
  "HmacSHA256 sample_env payload_a (secret sample_verifier) =
     Inr (js ''57a024802aa87e885e1c8e7d55e8e46452906051cbfbe2d7cb40954c4a834fad'')"
  "HmacSHA256 sample_env payload_b (secret sample_verifier) =
     Inr (js ''45fa19fd1ce80a65fab06f674511284cf5bf2b871b271eae6ef9fa3e2e9e84bb'')"
  "HmacSHA256 sample_env payload_fresh (secret sample_verifier) =
     Inr (js ''a0dca288755eca9901923307ee4a9028f7d7257643a005b581ed36a9123b29be'')"
  "HmacSHA256 sample_env payload_stale (secret sample_verifier) =
     Inr (js ''d56cf9d17192c8047eb5c6fa49a116891fffffab2a90ee1659e1d6b5c706cbd8'')"
  "HmacSHA256 sample_env payload_null (secret sample_verifier) =
     Inr (js ''eafe6a56406092ba36f8675157a759740d544095ad3341719c5bf31d8d1d88e4'')"
  "HmacSHA256 sample_env payload_unregistered (secret sample_verifier) =
     Inr (js ''6c1b3d23590ea171ae3e1265bc0a1f983594e0c8b5df47f50d97792836ea4297'')"
  "HmacSHA256 sample_env payload_x (secret sample_verifier) =
     Inr (js ''eb7a707b60529bc9f38d1b5502431b259e1adb3aae799f58c1782490067297ef'')"
  "HmacSHA256 sample_env payload_malformed (secret sample_verifier) =
     Inr (js ''1e0ac5fc5323736ef15042f0a81247010d14b4662d47e5b1fb78f3f50eb44ea5'')"
  by (simp_all add: sample_env_fields sample_verifier_secret recorded_digest_def
      sample_digests_sha256_def sample_payloads js_def)

lemma sample_HmacSHA1:
  "HmacSHA1 sample_env payload_a (secret sample_verifier) =
     Inr (js ''e5b0e9c7c82774ec5a403891cfbbc2a04c13ff8e'')"
  "HmacSHA1 sample_env payload_b (secret sample_verifier) =
     Inr (js ''4e8037948a3ffbf10a75f446c61eff26a36e3bb7'')"
  by (simp_all add: sample_env_fields sample_verifier_secret recorded_digest_def
      sample_digests_sha1_def sample_payloads js_def)

lemma sample_HmacSHA512:
  "HmacSHA512 sample_env payload_a (secret sample_verifier) =
     Inr (js ''7fc49584beed4d523ec10cf9552a385e0c272aad21a2a7a67a223e780e2e09e0fda1f62a22434d2211cb5ed2e08b2c98eff1274fc3fd98e470759be2130fe5ed'')"
  "HmacSHA512 sample_env payload_b (secret sample_verifier) =
     Inr (js ''906e44f3a6981a27564a888a2c46d28d67ae67b7f4f3af5838b6d514c9c73643267ac63f5f9fcc32778b6a25f9efb4d8dcaa0a04f26e22cdcf415a5f5bac967d'')"
  by (simp_all add: sample_env_fields sample_verifier_secret recorded_digest_def
      sample_digests_sha512_def sample_payloads js_def)

lemma lower_sha256:
  "toLowerCase (js ''sha256'') = js ''sha256''"
  "toLowerCase (js ''SHA256'') = js ''sha256''"
  by code_simp+

lemma generateSignature_None:
  "generateSignature env this payload None =
     (case HmacSHA256 env payload (secret this) of
        Inl e \<Rightarrow> Inl e
      | Inr h \<Rightarrow> Inr (js ''sha256='' @ h))"
proof -
  have "generateSignature env this payload None =
        generateSignature env this payload (Some (js ''sha256''))"
    by (simp add: generateSignature_def with_default_def)
  also have "\<dots> = (case HmacSHA256 env payload (secret this) of
                       Inl e \<Rightarrow> Inl e
                     | Inr h \<Rightarrow> Inr (js ''sha256'' @ js ''='' @ h))"
    by (rule generateSignature_sha256) (rule lower_sha256)
  also have "\<dots> = (case HmacSHA256 env payload (secret this) of
                       Inl e \<Rightarrow> Inl e
                     | Inr h \<Rightarrow> Inr (js ''sha256='' @ h))"
    by (simp add: js_def split: sum.splits)
  finally show ?thesis .
qed

lemma sample_generate:
  "generateSignature sample_env sample_verifier payload_a None = Inr signature_a"
  "generateSignature sample_env sample_verifier payload_fresh None = Inr signature_fresh"
  "generateSignature sample_env sample_verifier payload_stale None = Inr signature_stale"
  "generateSignature sample_env sample_verifier payload_null None = Inr signature_null"
  "generateSignature sample_env sample_verifier payload_unregistered None =
     Inr signature_unregistered"
  "generateSignature sample_env sample_verifier payload_x None = Inr signature_x"
  "generateSignature sample_env sample_verifier payload_malformed None = Inr signature_malformed"
  by (simp_all add: generateSignature_None sample_HmacSHA256 sample_signatures js_def)

lemma sample_verify:
  "verifySignature sample_env sample_verifier payload_a signature_a None = Inr True"
  "verifySignature sample_env sample_verifier payload_fresh signature_fresh None = Inr True"
  "verifySignature sample_env sample_verifier payload_stale signature_stale None = Inr True"
  "verifySignature sample_env sample_verifier payload_null signature_null None = Inr True"
  "verifySignature sample_env sample_verifier payload_unregistered signature_unregistered None =
     Inr True"
  "verifySignature sample_env sample_verifier payload_x signature_x None = Inr True"
  "verifySignature sample_env sample_verifier payload_malformed signature_malformed None =
     Inr True"
  by (simp_all add: verifySignature_eq sample_generate)

lemma sample_verify_other:
  "verifySignature sample_env sample_verifier payload_x signature_null None = Inr False"
  "verifySignature sample_env sample_verifier payload_stale signature_fresh None = Inr False"
  by (simp_all add: verifySignature_eq sample_generate sample_signatures js_def)

lemma sample_JSON:
  "JSON_parse sample_env payload_fresh =
     Inr (JObj [(js ''type'', JStr (js ''license.created'')),
                (js ''created_at'', JStr sample_time_fresh)])"
  "JSON_parse sample_env payload_stale =
     Inr (JObj [(js ''type'', JStr (js ''license.created'')),
                (js ''created_at'', JStr sample_time_stale)])"
  "JSON_parse sample_env payload_null = Inr JNull"
  "JSON_parse sample_env payload_unregistered =
     Inr (JObj [(js ''type'', JStr (js ''unregistered.type''))])"
  "JSON_parse sample_env payload_x = Inr (JObj [(js ''type'', JStr (js ''x''))])"
  "JSON_parse sample_env payload_malformed =
     Inl (JsError (js ''SyntaxError'') (js ''Unexpected token''))"
  by (simp_all add: sample_env_fields sample_JSON_parse_def sample_payloads js_def)

lemma sample_new_Date_values:
  "new_Date sample_env (JStr sample_time_fresh) = Inr (Some 1704067500000)"
  "new_Date sample_env (JStr sample_time_stale) = Inr (Some 1704067200000)"
  "new_Date sample_env (JStr []) = Inr None"
  "new_Date sample_env (JStr (js ''yesterday'')) = Inr None"
  by (simp_all add: sample_env_fields sample_new_Date_def sample_time_fresh_def
      sample_time_stale_def js_def)

lemma sample_times_truthy:
  "truthy (JStr sample_time_fresh)"
  "truthy (JStr sample_time_stale)"
  "truthy (JStr (js ''yesterday''))"
  by (simp_all add: sample_time_fresh_def sample_time_stale_def js_def)




text \<open>
  C5. \<open>verifySignature\<close> never throws: it always returns a boolean. It returns false for
  the empty signature and for a signature whose length differs from the expected one's;
  for an algorithm outside sha1, sha256 and sha512 \<open>generateSignature\<close> throws
  "Unsupported algorithm" and \<open>verifySignature\<close> absorbs that and returns false.
\<close>

theorem verifySignature_never_raises:
  "(\<exists>b. verifySignature env this payload signature algorithm = Inr b)
   \<and> (signature = [] \<longrightarrow> verifySignature env this payload signature algorithm = Inr False)
   \<and> (\<forall>expected. generateSignature env this payload algorithm = Inr expected
          \<and> length signature \<noteq> length expected \<longrightarrow>
          verifySignature env this payload signature algorithm = Inr False)
   \<and> (toLowerCase (with_default (js ''sha256'') algorithm) \<notin> {js ''sha1'', js ''sha256'', js ''sha512''} \<longrightarrow>
          generateSignature env this payload algorithm =
            Inl (WebhookVerificationError
                   (js ''Unsupported algorithm: '' @ with_default (js ''sha256'') algorithm))
          \<and> verifySignature env this payload signature algorithm = Inr False)"
proof (intro conjI impI allI)
  show "\<exists>b. verifySignature env this payload signature algorithm = Inr b"
    by (simp add: verifySignature_eq)
  show "verifySignature env this payload signature algorithm = Inr False" if "signature = []"
    using that generateSignature_nonempty [of env this payload algorithm "[]"]
    by (auto simp: verifySignature_eq)
  show "verifySignature env this payload signature algorithm = Inr False"
    if "generateSignature env this payload algorithm = Inr expected
        \<and> length signature \<noteq> length expected" for expected
    using that by (auto simp: verifySignature_eq)
  assume u: "toLowerCase (with_default (js ''sha256'') algorithm) \<notin> {js ''sha1'', js ''sha256'', js ''sha512''}"
  then show g: "generateSignature env this payload algorithm =
            Inl (WebhookVerificationError
                   (js ''Unsupported algorithm: '' @ with_default (js ''sha256'') algorithm))"
    by (simp add: generateSignature_def Let_def)
  then show "verifySignature env this payload signature algorithm = Inr False"
    by (simp add: verifySignature_eq)
qed

theorem verifySignature_never_raises_witness:
  "verifySignature sample_env sample_verifier payload_null [] None = Inr False
   \<and> verifySignature sample_env sample_verifier payload_null (js ''sha256=00'') None = Inr False
   \<and> verifySignature sample_env sample_verifier payload_null signature_null (Some (js ''md5'')) =
       Inr False
   \<and> generateSignature sample_env sample_verifier payload_null (Some (js ''md5'')) =
       Inl (WebhookVerificationError (js ''Unsupported algorithm: md5''))"
proof -
  have g: "generateSignature sample_env sample_verifier payload_null None = Inr signature_null"
    by (rule sample_generate)
  have l: "length (js ''sha256=00'') \<noteq> length signature_null"
    by (simp add: signature_null_def js_def)
  have u: "toLowerCase (with_default (js ''sha256'') (Some (js ''md5'')))
             \<notin> {js ''sha1'', js ''sha256'', js ''sha512''}"
    by code_simp
  have m: "js ''Unsupported algorithm: '' @ with_default (js ''sha256'') (Some (js ''md5'')) =
           js ''Unsupported algorithm: md5''"
    by (simp add: with_default_def js_def)
  show ?thesis
    using verifySignature_never_raises [of sample_env sample_verifier payload_null "[]" None]
      verifySignature_never_raises [of sample_env sample_verifier payload_null
        "js ''sha256=00''" None]
      verifySignature_never_raises [of sample_env sample_verifier payload_null signature_null
        "Some (js ''md5'')"]
      g l u m
    by simp
qed

text \<open>
  C10. The algorithm name is matched through \<open>toLowerCase\<close>: a name that lower-cases to
  \<open>sha1\<close>, \<open>sha256\<close> or \<open>sha512\<close> selects the HMAC function of that name, whatever its
  casing, while the prefix of the signature keeps the caller's spelling. So for two
  different spellings of one algorithm and a payload that has a digest, both spellings
  generate a signature, with the same digest and different prefixes: the two signatures
  are unequal, and \<open>verifySignature\<close> called with one spelling rejects the signature
  generated with the other.
\<close>

theorem algorithm_casing:
  "(name = js ''sha1'' \<and> hmac = HmacSHA1 env
    \<or> name = js ''sha256'' \<and> hmac = HmacSHA256 env
    \<or> name = js ''sha512'' \<and> hmac = HmacSHA512 env)
   \<and> toLowerCase a1 = name \<and> toLowerCase a2 = name \<and> a1 \<noteq> a2 \<longrightarrow>
     generateSignature env this payload (Some a1) =
       (case hmac payload (secret this) of
          Inl e \<Rightarrow> Inl e
        | Inr h \<Rightarrow> Inr (a1 @ js ''='' @ h))
   \<and> generateSignature env this payload (Some a2) =
       (case hmac payload (secret this) of
          Inl e \<Rightarrow> Inl e
        | Inr h \<Rightarrow> Inr (a2 @ js ''='' @ h))
   \<and> (\<forall>digest. hmac payload (secret this) = Inr digest \<longrightarrow>
        generateSignature env this payload (Some a1) = Inr (a1 @ js ''='' @ digest)
      \<and> generateSignature env this payload (Some a2) = Inr (a2 @ js ''='' @ digest)
      \<and> a1 @ js ''='' @ digest \<noteq> a2 @ js ''='' @ digest
      \<and> verifySignature env this payload (a2 @ js ''='' @ digest) (Some a1) = Inr False
      \<and> verifySignature env this payload (a1 @ js ''='' @ digest) (Some a2) = Inr False)"
proof (intro impI)
  assume h: "(name = js ''sha1'' \<and> hmac = HmacSHA1 env
    \<or> name = js ''sha256'' \<and> hmac = HmacSHA256 env
    \<or> name = js ''sha512'' \<and> hmac = HmacSHA512 env)
   \<and> toLowerCase a1 = name \<and> toLowerCase a2 = name \<and> a1 \<noteq> a2"
  have g1: "generateSignature env this payload (Some a1) =
       (case hmac payload (secret this) of
          Inl e \<Rightarrow> Inl e
        | Inr h \<Rightarrow> Inr (a1 @ js ''='' @ h))"
    using h generateSignature_selected [of name hmac env a1 this payload] by blast
  have g2: "generateSignature env this payload (Some a2) =
       (case hmac payload (secret this) of
          Inl e \<Rightarrow> Inl e
        | Inr h \<Rightarrow> Inr (a2 @ js ''='' @ h))"
    using h generateSignature_selected [of name hmac env a2 this payload] by blast
  have l: "length a1 = length a2"
    using h length_map [of toLowerCase_unit a1] length_map [of toLowerCase_unit a2]
    by (simp add: toLowerCase_def)
  have r: "generateSignature env this payload (Some a1) = Inr (a1 @ js ''='' @ digest)
      \<and> generateSignature env this payload (Some a2) = Inr (a2 @ js ''='' @ digest)
      \<and> a1 @ js ''='' @ digest \<noteq> a2 @ js ''='' @ digest
      \<and> verifySignature env this payload (a2 @ js ''='' @ digest) (Some a1) = Inr False
      \<and> verifySignature env this payload (a1 @ js ''='' @ digest) (Some a2) = Inr False"
    if d: "hmac payload (secret this) = Inr digest" for digest
  proof -
    have ne: "a1 @ js ''='' @ digest \<noteq> a2 @ js ''='' @ digest"
      using h l by simp
    then have ne': "a2 @ js ''='' @ digest \<noteq> a1 @ js ''='' @ digest"
      by (rule not_sym)
    show ?thesis
      using ne ne' by (simp add: verifySignature_eq g1 g2 d)
  qed
  show "generateSignature env this payload (Some a1) =
       (case hmac payload (secret this) of
          Inl e \<Rightarrow> Inl e
        | Inr h \<Rightarrow> Inr (a1 @ js ''='' @ h))
   \<and> generateSignature env this payload (Some a2) =
       (case hmac payload (secret this) of
          Inl e \<Rightarrow> Inl e
        | Inr h \<Rightarrow> Inr (a2 @ js ''='' @ h))
   \<and> (\<forall>digest. hmac payload (secret this) = Inr digest \<longrightarrow>
        generateSignature env this payload (Some a1) = Inr (a1 @ js ''='' @ digest)
      \<and> generateSignature env this payload (Some a2) = Inr (a2 @ js ''='' @ digest)
      \<and> a1 @ js ''='' @ digest \<noteq> a2 @ js ''='' @ digest
      \<and> verifySignature env this payload (a2 @ js ''='' @ digest) (Some a1) = Inr False
      \<and> verifySignature env this payload (a1 @ js ''='' @ digest) (Some a2) = Inr False)"
    using g1 g2 r by blast
qed

text \<open>
  In the recorded run, for the payload \<open>a\<close>: \<open>SHA1\<close> and \<open>sha1\<close>, \<open>SHA256\<close> and \<open>sha256\<close>,
  \<open>Sha512\<close> and \<open>sha512\<close> give the same digest under different prefixes, and the signature
  of one spelling fails under the other.
\<close>

theorem algorithm_casing_witness:
  "generateSignature sample_env sample_verifier payload_a (Some (js ''SHA1'')) =
     Inr (js ''SHA1=e5b0e9c7c82774ec5a403891cfbbc2a04c13ff8e'')
   \<and> generateSignature sample_env sample_verifier payload_a (Some (js ''sha1'')) =
     Inr (js ''sha1=e5b0e9c7c82774ec5a403891cfbbc2a04c13ff8e'')
   \<and> verifySignature sample_env sample_verifier payload_a
       (js ''sha1=e5b0e9c7c82774ec5a403891cfbbc2a04c13ff8e'') (Some (js ''SHA1'')) = Inr False
   \<and> verifySignature sample_env sample_verifier payload_a
       (js ''SHA1=e5b0e9c7c82774ec5a403891cfbbc2a04c13ff8e'') (Some (js ''sha1'')) = Inr False
   \<and> generateSignature sample_env sample_verifier payload_a (Some (js ''SHA256'')) =
     Inr (js ''SHA256=57a024802aa87e885e1c8e7d55e8e46452906051cbfbe2d7cb40954c4a834fad'')
   \<and> generateSignature sample_env sample_verifier payload_a (Some (js ''sha256'')) =
     Inr signature_a
   \<and> verifySignature sample_env sample_verifier payload_a signature_a (Some (js ''SHA256''))
       = Inr False
   \<and> generateSignature sample_env sample_verifier payload_a (Some (js ''Sha512'')) =
     Inr (js ''Sha512=7fc49584beed4d523ec10cf9552a385e0c272aad21a2a7a67a223e780e2e09e0fda1f62a22434d2211cb5ed2e08b2c98eff1274fc3fd98e470759be2130fe5ed'')
   \<and> verifySignature sample_env sample_verifier payload_a
       (js ''Sha512=7fc49584beed4d523ec10cf9552a385e0c272aad21a2a7a67a223e780e2e09e0fda1f62a22434d2211cb5ed2e08b2c98eff1274fc3fd98e470759be2130fe5ed'')
       (Some (js ''sha512'')) = Inr False"
proof -
  let ?d1 = "js ''e5b0e9c7c82774ec5a403891cfbbc2a04c13ff8e''"
  let ?d256 = "js ''57a024802aa87e885e1c8e7d55e8e46452906051cbfbe2d7cb40954c4a834fad''"
  let ?d512 = "js ''7fc49584beed4d523ec10cf9552a385e0c272aad21a2a7a67a223e780e2e09e0fda1f62a22434d2211cb5ed2e08b2c98eff1274fc3fd98e470759be2130fe5ed''"
  have c1: "toLowerCase (js ''SHA1'') = js ''sha1'' \<and> toLowerCase (js ''sha1'') = js ''sha1''
            \<and> js ''SHA1'' \<noteq> js ''sha1''"
    by (simp add: lower_names) (simp add: js_def)
  have c256: "toLowerCase (js ''SHA256'') = js ''sha256''
            \<and> toLowerCase (js ''sha256'') = js ''sha256'' \<and> js ''SHA256'' \<noteq> js ''sha256''"
    by (simp add: lower_names) (simp add: js_def)
  have c512: "toLowerCase (js ''Sha512'') = js ''sha512''
            \<and> toLowerCase (js ''sha512'') = js ''sha512'' \<and> js ''Sha512'' \<noteq> js ''sha512''"
    by (simp add: lower_names) (simp add: js_def)
  have t: "js ''SHA1'' @ js ''='' @ ?d1 = js ''SHA1=e5b0e9c7c82774ec5a403891cfbbc2a04c13ff8e''"
    "js ''sha1'' @ js ''='' @ ?d1 = js ''sha1=e5b0e9c7c82774ec5a403891cfbbc2a04c13ff8e''"
    "js ''SHA256'' @ js ''='' @ ?d256 =
       js ''SHA256=57a024802aa87e885e1c8e7d55e8e46452906051cbfbe2d7cb40954c4a834fad''"
    "js ''sha256'' @ js ''='' @ ?d256 = signature_a"
    "js ''Sha512'' @ js ''='' @ ?d512 =
       js ''Sha512=7fc49584beed4d523ec10cf9552a385e0c272aad21a2a7a67a223e780e2e09e0fda1f62a22434d2211cb5ed2e08b2c98eff1274fc3fd98e470759be2130fe5ed''"
    by (simp_all add: signature_a_def js_def)
  have r1: "generateSignature sample_env sample_verifier payload_a (Some (js ''SHA1'')) =
              Inr (js ''SHA1'' @ js ''='' @ ?d1)
        \<and> generateSignature sample_env sample_verifier payload_a (Some (js ''sha1'')) =
              Inr (js ''sha1'' @ js ''='' @ ?d1)
        \<and> verifySignature sample_env sample_verifier payload_a (js ''sha1'' @ js ''='' @ ?d1)
              (Some (js ''SHA1'')) = Inr False
        \<and> verifySignature sample_env sample_verifier payload_a (js ''SHA1'' @ js ''='' @ ?d1)
              (Some (js ''sha1'')) = Inr False"
    using algorithm_casing [of "js ''sha1''" "HmacSHA1 sample_env" sample_env "js ''SHA1''"
        "js ''sha1''" sample_verifier payload_a] c1 sample_HmacSHA1(1)
    by blast
  have r256: "generateSignature sample_env sample_verifier payload_a (Some (js ''SHA256'')) =
              Inr (js ''SHA256'' @ js ''='' @ ?d256)
        \<and> generateSignature sample_env sample_verifier payload_a (Some (js ''sha256'')) =
              Inr (js ''sha256'' @ js ''='' @ ?d256)
        \<and> verifySignature sample_env sample_verifier payload_a (js ''sha256'' @ js ''='' @ ?d256)
              (Some (js ''SHA256'')) = Inr False"
    using algorithm_casing [of "js ''sha256''" "HmacSHA256 sample_env" sample_env "js ''SHA256''"
        "js ''sha256''" sample_verifier payload_a] c256 sample_HmacSHA256(1)
    by blast
  have r512: "generateSignature sample_env sample_verifier payload_a (Some (js ''Sha512'')) =
              Inr (js ''Sha512'' @ js ''='' @ ?d512)
        \<and> verifySignature sample_env sample_verifier payload_a (js ''Sha512'' @ js ''='' @ ?d512)
              (Some (js ''sha512'')) = Inr False"
    using algorithm_casing [of "js ''sha512''" "HmacSHA512 sample_env" sample_env "js ''Sha512''"
        "js ''sha512''" sample_verifier payload_a] c512 sample_HmacSHA512(1)
    by blast
  show ?thesis
    using r1 r256 r512 unfolding t by blast
qed

section \<open>Normalizing and parsing the payload\<close>

lemma get_prop_defined:
  "v \<noteq> JNull \<Longrightarrow> v \<noteq> JUndefined \<Longrightarrow> get_prop v (js name) = Inr (read_prop v name)"
  by (cases v) (simp_all add: read_prop_def)

lemma extractEventData_defined:
  assumes "v \<noteq> JNull" "v \<noteq> JUndefined"
  shows "extractEventData v =
     Inr \<lparr>ev_id = read_prop v ''id'',
          ev_type = first_truthy [read_prop v ''type'', read_prop v ''event''],
          ev_createdAt = first_truthy [read_prop v ''created_at'', read_prop v ''createdAt''],
          ev_data = first_truthy [read_prop v ''data'', read_prop v ''object'', JObj []]\<rparr>"
  by (simp add: extractEventData_def and_then_def or_else_def get_prop_defined [OF assms])

lemma extractEventData_null:
  "extractEventData JNull = Inl (null_property_error (js ''null'') (js ''id''))"
  "extractEventData JUndefined = Inl (null_property_error (js ''undefined'') (js ''id''))"
  by (simp_all add: extractEventData_def and_then_def)

text \<open>
  C9. For every payload object, \<open>extractEventData\<close> takes \<open>id\<close> as it is and each other
  field from the first truthy source in priority order: type from \<open>type\<close> then \<open>event\<close>,
  createdAt from \<open>created_at\<close> then \<open>createdAt\<close>, data from \<open>data\<close> then \<open>object\<close> then
  the empty object. When no source is truthy the last one is taken, so a present but
  falsy source (an empty string, 0, false, null) gives way to its fallback.
\<close>

theorem extractEventData_priority:
  "extractEventData (JObj kvs) =
     Inr \<lparr>ev_id = read_prop (JObj kvs) ''id'',
          ev_type = first_truthy [read_prop (JObj kvs) ''type'', read_prop (JObj kvs) ''event''],
          ev_createdAt = first_truthy [read_prop (JObj kvs) ''created_at'',
                                       read_prop (JObj kvs) ''createdAt''],
          ev_data = first_truthy [read_prop (JObj kvs) ''data'', read_prop (JObj kvs) ''object'',
                                  JObj []]\<rparr>"
  by (rule extractEventData_defined) simp_all

theorem extractEventData_priority_witness:
  "extractEventData
     (JObj [(js ''id'', JStr (js ''evt_1'')), (js ''event'', JStr (js ''license.created'')),
            (js ''created_at'', JNull), (js ''createdAt'', JStr sample_time_fresh),
            (js ''object'', JObj [(js ''key'', JStr (js ''LC-1''))])]) =
     Inr \<lparr>ev_id = JStr (js ''evt_1''), ev_type = JStr (js ''license.created''),
          ev_createdAt = JStr sample_time_fresh,
          ev_data = JObj [(js ''key'', JStr (js ''LC-1''))]\<rparr>"
proof -
  let ?kvs = "[(js ''id'', JStr (js ''evt_1'')), (js ''event'', JStr (js ''license.created'')),
            (js ''created_at'', JNull), (js ''createdAt'', JStr sample_time_fresh),
            (js ''object'', JObj [(js ''key'', JStr (js ''LC-1''))])]"
  have r: "read_prop (JObj ?kvs) ''id'' = JStr (js ''evt_1'')
           \<and> first_truthy [read_prop (JObj ?kvs) ''type'', read_prop (JObj ?kvs) ''event'']
               = JStr (js ''license.created'')
           \<and> first_truthy [read_prop (JObj ?kvs) ''created_at'',
                            read_prop (JObj ?kvs) ''createdAt''] = JStr sample_time_fresh
           \<and> first_truthy [read_prop (JObj ?kvs) ''data'', read_prop (JObj ?kvs) ''object'',
                            JObj []] = JObj [(js ''key'', JStr (js ''LC-1''))]"
    by code_simp
  show ?thesis
    using extractEventData_priority [of ?kvs] r by simp
qed

text \<open>
  The payload \<open>{"type": "", "event": "license.created"}\<close>: the \<open>type\<close> field is present
  and is the first source that is not absent, yet the event's type is taken from \<open>event\<close>.
\<close>

theorem falsy_type_counterexample:
  "extractEventData (JObj [(js ''type'', JStr []), (js ''event'', JStr (js ''license.created''))]) =
     Inr \<lparr>ev_id = JUndefined, ev_type = JStr (js ''license.created''),
          ev_createdAt = JUndefined, ev_data = JObj []\<rparr>
   \<and> first_present [JStr [], JStr (js ''license.created'')] = JStr []
   \<and> JStr [] \<noteq> JStr (js ''license.created'')"
  by code_simp

lemma parsePayload_default:
  "parsePayload env this payload signature (Some (with_default (js ''sha256'') algorithm)) =
   parsePayload env this payload signature algorithm"
  by (simp add: parsePayload_def with_default_def split: option.splits)

lemma parsePayload_unfold:
  "parsePayload env this payload signature algorithm =
     (if verifySignature env this payload signature algorithm = Inr True
      then (case JSON_parse env payload of
              Inl e \<Rightarrow> Inl (WebhookVerificationError (js ''Invalid JSON payload: '' @ error_toString e))
            | Inr data \<Rightarrow>
                (case extractEventData data of
                   Inl e \<Rightarrow> Inl (WebhookVerificationError
                                   (js ''Invalid JSON payload: '' @ error_toString e))
                 | Inr event \<Rightarrow> Inr event))
      else Inl (WebhookVerificationError (js ''Invalid webhook signature'')))"
  unfolding parsePayload_def Let_def verifySignature_default
  by (simp add: verifySignature_eq and_then_def try_catch_def split: sum.splits)

text \<open>
  C1. When the signature does not verify, \<open>parsePayload\<close> throws the
  WebhookVerificationError "Invalid webhook signature", whatever \<open>JSON.parse\<close> would make
  of the payload: the result does not depend on the parser. When the signature verifies
  and \<open>JSON.parse\<close> throws, it throws the WebhookVerificationError "Invalid JSON payload: "
  followed by the parse error. When the signature verifies and the payload parses to
  \<open>null\<close>, normalization throws a TypeError and \<open>parsePayload\<close> reports it under the same
  "Invalid JSON payload: " message. Otherwise it returns the normalized event.
\<close>

theorem parsePayload_outcomes:
  "(verifySignature env this payload signature algorithm = Inr False \<longrightarrow>
      (\<forall>parse. parsePayload (env\<lparr>JSON_parse := parse\<rparr>) this payload signature algorithm =
                 Inl (WebhookVerificationError (js ''Invalid webhook signature''))))
   \<and> (verifySignature env this payload signature algorithm = Inr True \<longrightarrow>
        (\<forall>e. JSON_parse env payload = Inl e \<longrightarrow>
           parsePayload env this payload signature algorithm =
             Inl (WebhookVerificationError (js ''Invalid JSON payload: '' @ error_toString e)))
      \<and> (JSON_parse env payload = Inr JNull \<longrightarrow>
           parsePayload env this payload signature algorithm =
             Inl (WebhookVerificationError
                    (js ''Invalid JSON payload: ''
                     @ error_toString (null_property_error (js ''null'') (js ''id'')))))
      \<and> (\<forall>data. JSON_parse env payload = Inr data \<and> data \<noteq> JNull \<and> data \<noteq> JUndefined \<longrightarrow>
           (\<exists>event. extractEventData data = Inr event
              \<and> parsePayload env this payload signature algorithm = Inr event)))"
  by (auto simp: parsePayload_unfold verifySignature_parse_independent extractEventData_null
      extractEventData_defined)

lemma sample_events:
  "extractEventData (JObj [(js ''type'', JStr (js ''license.created'')),
                           (js ''created_at'', JStr sample_time_fresh)]) =
     Inr \<lparr>ev_id = JUndefined, ev_type = JStr (js ''license.created''),
          ev_createdAt = JStr sample_time_fresh, ev_data = JObj []\<rparr>"
  "extractEventData (JObj [(js ''type'', JStr (js ''license.created'')),
                           (js ''created_at'', JStr sample_time_stale)]) =
     Inr \<lparr>ev_id = JUndefined, ev_type = JStr (js ''license.created''),
          ev_createdAt = JStr sample_time_stale, ev_data = JObj []\<rparr>"
  "extractEventData (JObj [(js ''type'', JStr (js ''unregistered.type''))]) =
     Inr \<lparr>ev_id = JUndefined, ev_type = JStr (js ''unregistered.type''),
          ev_createdAt = JUndefined, ev_data = JObj []\<rparr>"
  "extractEventData (JObj [(js ''type'', JStr (js ''x''))]) =
     Inr \<lparr>ev_id = JUndefined, ev_type = JStr (js ''x''),
          ev_createdAt = JUndefined, ev_data = JObj []\<rparr>"
  by (simp_all add: extractEventData_defined read_prop_def sample_time_fresh_def
      sample_time_stale_def js_def)

lemma sample_parse:
  "parsePayload sample_env sample_verifier payload_fresh signature_fresh None =
     Inr \<lparr>ev_id = JUndefined, ev_type = JStr (js ''license.created''),
          ev_createdAt = JStr sample_time_fresh, ev_data = JObj []\<rparr>"
  "parsePayload sample_env sample_verifier payload_stale signature_stale None =
     Inr \<lparr>ev_id = JUndefined, ev_type = JStr (js ''license.created''),
          ev_createdAt = JStr sample_time_stale, ev_data = JObj []\<rparr>"
  "parsePayload sample_env sample_verifier payload_unregistered signature_unregistered None =
     Inr \<lparr>ev_id = JUndefined, ev_type = JStr (js ''unregistered.type''),
          ev_createdAt = JUndefined, ev_data = JObj []\<rparr>"
  "parsePayload sample_env sample_verifier payload_x signature_x None =
     Inr \<lparr>ev_id = JUndefined, ev_type = JStr (js ''x''),
          ev_createdAt = JUndefined, ev_data = JObj []\<rparr>"
  by (simp_all add: parsePayload_unfold sample_verify sample_JSON sample_events)

theorem parsePayload_outcomes_witness:
  "parsePayload (sample_env\<lparr>JSON_parse := (\<lambda>text. Inr (JObj []))\<rparr>) sample_verifier
     payload_x signature_null None =
       Inl (WebhookVerificationError (js ''Invalid webhook signature''))
   \<and> parsePayload sample_env sample_verifier payload_malformed signature_malformed None =
       Inl (WebhookVerificationError (js ''Invalid JSON payload: SyntaxError: Unexpected token''))
   \<and> extractEventData (JObj [(js ''type'', JStr (js ''x''))]) =
       Inr \<lparr>ev_id = JUndefined, ev_type = JStr (js ''x''),
            ev_createdAt = JUndefined, ev_data = JObj []\<rparr>
   \<and> parsePayload sample_env sample_verifier payload_x signature_x None =
       Inr \<lparr>ev_id = JUndefined, ev_type = JStr (js ''x''),
            ev_createdAt = JUndefined, ev_data = JObj []\<rparr>
   \<and> parsePayload sample_env sample_verifier payload_null signature_null None =
       Inl (WebhookVerificationError
              (js ''Invalid JSON payload: ''
               @ error_toString (null_property_error (js ''null'') (js ''id''))))"
proof -
  have null_case: "parsePayload sample_env sample_verifier payload_null signature_null None =
       Inl (WebhookVerificationError
              (js ''Invalid JSON payload: ''
               @ error_toString (null_property_error (js ''null'') (js ''id''))))"
    using parsePayload_outcomes [of sample_env sample_verifier payload_null signature_null None]
      sample_verify(4) sample_JSON(3) by blast
  have bad_case: "parsePayload (sample_env\<lparr>JSON_parse := (\<lambda>text. Inr (JObj []))\<rparr>)
       sample_verifier payload_x signature_null None =
       Inl (WebhookVerificationError (js ''Invalid webhook signature''))"
    using parsePayload_outcomes [of sample_env sample_verifier payload_x signature_null None]
      sample_verify_other(1) by blast
  have text_m: "js ''Invalid JSON payload: ''
                  @ error_toString (JsError (js ''SyntaxError'') (js ''Unexpected token'')) =
                js ''Invalid JSON payload: SyntaxError: Unexpected token''"
    by (simp add: error_toString_def js_def)
  have malformed_case: "parsePayload sample_env sample_verifier payload_malformed
       signature_malformed None =
       Inl (WebhookVerificationError (js ''Invalid JSON payload: SyntaxError: Unexpected token''))"
    using parsePayload_outcomes [of sample_env sample_verifier payload_malformed
        signature_malformed None]
      sample_verify(7) sample_JSON(6) text_m by simp
  have x_case: "parsePayload sample_env sample_verifier payload_x signature_x None =
       Inr \<lparr>ev_id = JUndefined, ev_type = JStr (js ''x''),
            ev_createdAt = JUndefined, ev_data = JObj []\<rparr>"
    using parsePayload_outcomes [of sample_env sample_verifier payload_x signature_x None]
      sample_verify(6) sample_JSON(5) sample_events(4) by auto
  show ?thesis
    using null_case bad_case malformed_case x_case sample_events(4) by simp
qed

text \<open>
  The payload \<open>null\<close> with its valid signature: the signature verifies and \<open>JSON.parse\<close>
  succeeds, yet \<open>parsePayload\<close> throws "Invalid JSON payload" and returns no event.
\<close>

theorem null_payload_counterexample:
  "verifySignature sample_env sample_verifier payload_null signature_null None = Inr True
   \<and> JSON_parse sample_env payload_null = Inr JNull
   \<and> parsePayload sample_env sample_verifier payload_null signature_null None =
       Inl (WebhookVerificationError
              (js ''Invalid JSON payload: TypeError: Cannot read properties of null (reading ''
               @ [0x27] @ js ''id'' @ [0x27] @ js '')''))"
proof -
  have "js ''Invalid JSON payload: ''
          @ error_toString (null_property_error (js ''null'') (js ''id'')) =
        js ''Invalid JSON payload: TypeError: Cannot read properties of null (reading ''
          @ [0x27] @ js ''id'' @ [0x27] @ js '')''"
    by (simp add: error_toString_def null_property_error_def js_def)
  then show ?thesis
    by (simp add: parsePayload_unfold sample_verify sample_JSON extractEventData_null)
qed

section \<open>The replay window\<close>

lemma double_of_int_exact: "\<bar>n\<bar> < 2 ^ 53 \<Longrightarrow> double_of_int n = n"
  by (simp add: double_of_int_def)

text \<open>Rounding does not carry a difference across a bound below \<open>2 ^ 53\<close>.\<close>

lemma double_of_int_le:
  assumes "k < 9007199254740992"
  shows "\<bar>double_of_int n\<bar> \<le> k \<longleftrightarrow> \<bar>n\<bar> \<le> k"
proof (cases "\<bar>n\<bar> < 9007199254740992 \<or> even n")
  case True
  then show ?thesis by (simp add: double_of_int_def)
next
  case False
  then have "\<bar>n\<bar> \<ge> 9007199254740992" "odd n" by simp_all
  then have "\<bar>n\<bar> \<ge> 9007199254740993" by presburger
  then have "\<bar>n - 1\<bar> > k \<and> \<bar>n + 1\<bar> > k \<and> \<bar>n\<bar> > k"
    using assms by linarith
  then show ?thesis
    using False by (simp add: double_of_int_def)
qed

text \<open>The comparison in seconds is the comparison in milliseconds.\<close>

lemma seconds_le: "\<bar>rat_of_int x / 1000\<bar> \<le> rat_of_int k \<longleftrightarrow> \<bar>x\<bar> \<le> 1000 * k"
proof -
  have "\<bar>rat_of_int x / 1000\<bar> \<le> rat_of_int k \<longleftrightarrow> rat_of_int \<bar>x\<bar> \<le> rat_of_int (1000 * k)"
    by (simp add: field_simps)
  also have "\<dots> \<longleftrightarrow> \<bar>x\<bar> \<le> 1000 * k"
    by (rule of_int_le_iff)
  finally show ?thesis .
qed

lemma verifyTimestamp_unfold:
  "verifyTimestamp env event tolerance =
     Inr (if \<not> truthy (ev_createdAt event) then True
          else (case new_Date env (ev_createdAt event) of
                  Inl e \<Rightarrow> False
                | Inr None \<Rightarrow> False
                | Inr (Some t) \<Rightarrow>
                    \<bar>rat_of_int (double_of_int (current_time env - t)) / 1000\<bar>
                      \<le> rat_of_int (with_default 300 tolerance)))"
  by (simp add: verifyTimestamp_def Let_def try_catch_def and_then_def
      split: sum.splits option.splits)

text \<open>
  A timestamp more than 300 seconds from the clock is outside the default tolerance.
\<close>

lemma verifyTimestamp_too_old:
  assumes "truthy (ev_createdAt event)"
    and "new_Date env (ev_createdAt event) = Inr (Some t)"
    and "\<bar>rat_of_int (current_time env - t) / 1000\<bar> > 300"
  shows "verifyTimestamp env event None = Inr False"
proof -
  have "\<not> \<bar>rat_of_int (current_time env - t) / 1000\<bar> \<le> rat_of_int 300"
    using assms(3) by simp
  then have "\<not> \<bar>current_time env - t\<bar> \<le> 1000 * 300"
    unfolding seconds_le .
  then have "\<not> \<bar>double_of_int (current_time env - t)\<bar> \<le> 1000 * 300"
    using double_of_int_le [of "1000 * 300" "current_time env - t"] by simp
  then have "\<not> \<bar>rat_of_int (double_of_int (current_time env - t)) / 1000\<bar>
               \<le> rat_of_int 300"
    unfolding seconds_le .
  then show ?thesis
    using assms(1,2) by (simp add: verifyTimestamp_unfold with_default_def)
qed




section \<open>Dispatch\<close>

lemma handle_unfold:
  "handle env this payload signature algorithm =
     (case parsePayload env (verifier this) payload signature algorithm of
        Inl e \<Rightarrow> Inr (JObj [(js ''valid'', JBool False), (js ''error'', JStr (err_message e))])
      | Inr event \<Rightarrow>
          (case verifyTimestamp env event None of
             Inl e \<Rightarrow> Inr (JObj [(js ''valid'', JBool False), (js ''error'', JStr (err_message e))])
           | Inr timely \<Rightarrow>
               if \<not> timely
               then Inr (JObj [(js ''valid'', JBool False),
                               (js ''error'', JStr (js ''Webhook timestamp is too old''))])
               else (case handleEvent this event of
                       Inl error \<Rightarrow> Inr (JObj [(js ''valid'', JBool False),
                                                (js ''error'', JStr (error_message error))])
                     | Inr result \<Rightarrow>
                         Inr (spread [(js ''valid'', JBool True),
                                      (js ''event'', event_value event)] result))))"
  unfolding handle_def Let_def parsePayload_default
  by (simp add: try_catch_def and_then_def error_message_def WebhookVerificationError_def
      split: sum.splits)

lemma handle_returns: "\<exists>envelope. handle env this payload signature algorithm = Inr envelope"
  by (simp add: handle_unfold split: sum.splits)

lemma too_old_included: "js_includes (js ''Webhook timestamp is too old'') (js ''too old'')"
  by (simp add: js_def)

lemma sample_handler_verifier: "verifier sample_handler = sample_verifier"
  by (simp add: sample_handler_def setupDefaultHandlers_def)

lemma sample_timely:
  "verifyTimestamp sample_env
     \<lparr>ev_id = i, ev_type = ty, ev_createdAt = JUndefined, ev_data = d\<rparr> None = Inr True"
  "verifyTimestamp sample_env
     \<lparr>ev_id = i, ev_type = ty, ev_createdAt = JStr sample_time_fresh, ev_data = d\<rparr> None =
   Inr True"
proof -
  show "verifyTimestamp sample_env
     \<lparr>ev_id = i, ev_type = ty, ev_createdAt = JUndefined, ev_data = d\<rparr> None = Inr True"
    by (simp add: verifyTimestamp_def)
  show "verifyTimestamp sample_env
     \<lparr>ev_id = i, ev_type = ty, ev_createdAt = JStr sample_time_fresh, ev_data = d\<rparr> None =
   Inr True"
    by (simp add: verifyTimestamp_unfold with_default_def double_of_int_exact
        sample_times_truthy sample_new_Date_values sample_env_fields(6) del: truthy.simps)
qed

lemma Map_get_on: "Map_get (handlers (on this eventType handler)) (JStr eventType) = Some handler"
  by (simp add: on_def Map_get_def update_conv')

lemma sample_epoch:
  "verifySignature sample_env sample_verifier payload_epoch signature_epoch None = Inr True"
  "JSON_parse sample_env payload_epoch =
     Inr (JObj [(js ''type'', JStr (js ''license.created'')), (js ''createdAt'', JNum 0)])"
  "extractEventData (JObj [(js ''type'', JStr (js ''license.created'')),
                           (js ''createdAt'', JNum 0)]) =
     Inr \<lparr>ev_id = JUndefined, ev_type = JStr (js ''license.created''),
          ev_createdAt = JNum 0, ev_data = JObj []\<rparr>"
  "new_Date sample_env (JNum 0) = Inr (Some 0)"
proof -
  have "HmacSHA256 sample_env payload_epoch (secret sample_verifier) =
          Inr (js ''2e4d53774534d12bc2c659c8089faadfdee7f0a09ced5805b84219d3ea6de491'')"
    by (simp add: sample_env_fields sample_verifier_secret recorded_digest_def
        sample_digests_sha256_def sample_payloads js_def)
  then have "generateSignature sample_env sample_verifier payload_epoch None =
               Inr signature_epoch"
    by (simp add: generateSignature_None signature_epoch_def js_def)
  then show "verifySignature sample_env sample_verifier payload_epoch signature_epoch None =
               Inr True"
    by (simp add: verifySignature_eq)
  show "JSON_parse sample_env payload_epoch =
     Inr (JObj [(js ''type'', JStr (js ''license.created'')), (js ''createdAt'', JNum 0)])"
    by (simp add: sample_env_fields sample_JSON_parse_def sample_payloads js_def)
  show "extractEventData (JObj [(js ''type'', JStr (js ''license.created'')),
                           (js ''createdAt'', JNum 0)]) =
     Inr \<lparr>ev_id = JUndefined, ev_type = JStr (js ''license.created''),
          ev_createdAt = JNum 0, ev_data = JObj []\<rparr>"
    by (simp add: extractEventData_defined read_prop_def js_def)
  show "new_Date sample_env (JNum 0) = Inr (Some 0)"
    by (simp add: sample_env_fields sample_new_Date_def)
qed

text \<open>
  C7. \<open>handle\<close> never throws: it always returns an envelope. An error thrown by
  \<open>parsePayload\<close> (a bad signature, a payload that does not parse) comes back as
  \<open>{valid: false, error: message}\<close>. A payload whose signature verifies and whose createdAt
  is truthy and more than 300 seconds away from the current time comes back as
  \<open>{valid: false, error: "Webhook timestamp is too old"}\<close>, a message that contains
  "too old", and so does one whose createdAt is truthy and cannot be read as a date. A
  createdAt that is falsy (0, the empty string, null, false) is taken as no timestamp: the
  timestamp check passes, however far that time is from the current one.
\<close>

theorem handle_reports_failures:
  "(\<exists>envelope. handle env this payload signature algorithm = Inr envelope)
   \<and> (\<forall>e. parsePayload env (verifier this) payload signature algorithm = Inl e \<longrightarrow>
         handle env this payload signature algorithm =
           Inr (JObj [(js ''valid'', JBool False), (js ''error'', JStr (err_message e))]))
   \<and> (\<forall>event. parsePayload env (verifier this) payload signature algorithm = Inr event \<longrightarrow>
        (truthy (ev_createdAt event)
         \<and> ((\<exists>t. new_Date env (ev_createdAt event) = Inr (Some t)
                  \<and> \<bar>rat_of_int (current_time env - t) / 1000\<bar> > 300)
            \<or> new_Date env (ev_createdAt event) = Inr None
            \<or> (\<exists>e. new_Date env (ev_createdAt event) = Inl e)) \<longrightarrow>
           handle env this payload signature algorithm =
             Inr (JObj [(js ''valid'', JBool False),
                        (js ''error'', JStr (js ''Webhook timestamp is too old''))])
           \<and> js_includes (js ''Webhook timestamp is too old'') (js ''too old''))
      \<and> (\<not> truthy (ev_createdAt event) \<longrightarrow> verifyTimestamp env event None = Inr True))"
proof (intro conjI allI impI)
  show "\<exists>envelope. handle env this payload signature algorithm = Inr envelope"
    by (rule handle_returns)
next
  fix e
  assume "parsePayload env (verifier this) payload signature algorithm = Inl e"
  then show "handle env this payload signature algorithm =
           Inr (JObj [(js ''valid'', JBool False), (js ''error'', JStr (err_message e))])"
    by (simp add: handle_unfold)
next
  fix event
  assume p: "parsePayload env (verifier this) payload signature algorithm = Inr event"
  show "verifyTimestamp env event None = Inr True" if "\<not> truthy (ev_createdAt event)"
    using that by (simp add: verifyTimestamp_unfold)
  assume h: "truthy (ev_createdAt event)
         \<and> ((\<exists>t. new_Date env (ev_createdAt event) = Inr (Some t)
                  \<and> \<bar>rat_of_int (current_time env - t) / 1000\<bar> > 300)
            \<or> new_Date env (ev_createdAt event) = Inr None
            \<or> (\<exists>e. new_Date env (ev_createdAt event) = Inl e))"
  then have "verifyTimestamp env event None = Inr False"
  proof (elim conjE disjE exE)
    fix t
    assume "truthy (ev_createdAt event)" "new_Date env (ev_createdAt event) = Inr (Some t)"
      "\<bar>rat_of_int (current_time env - t) / 1000\<bar> > 300"
    then show ?thesis by (rule verifyTimestamp_too_old)
  next
    assume "truthy (ev_createdAt event)" "new_Date env (ev_createdAt event) = Inr None"
    then show ?thesis by (simp add: verifyTimestamp_unfold)
  next
    fix e
    assume "truthy (ev_createdAt event)" "new_Date env (ev_createdAt event) = Inl e"
    then show ?thesis by (simp add: verifyTimestamp_unfold)
  qed
  with p show "handle env this payload signature algorithm =
           Inr (JObj [(js ''valid'', JBool False),
                      (js ''error'', JStr (js ''Webhook timestamp is too old''))])"
    by (simp add: handle_unfold)
  show "js_includes (js ''Webhook timestamp is too old'') (js ''too old'')"
    by (rule too_old_included)
qed

theorem handle_reports_failures_witness:
  "handle sample_env sample_handler payload_stale signature_stale None =
     Inr (JObj [(js ''valid'', JBool False),
                (js ''error'', JStr (js ''Webhook timestamp is too old''))])
   \<and> handle sample_env sample_handler payload_stale signature_fresh None =
     Inr (JObj [(js ''valid'', JBool False),
                (js ''error'', JStr (js ''Invalid webhook signature''))])
   \<and> verifyTimestamp sample_env
       \<lparr>ev_id = JUndefined, ev_type = JStr (js ''license.created''),
        ev_createdAt = JNum 0, ev_data = JObj []\<rparr> None = Inr True"
proof -
  let ?event = "\<lparr>ev_id = JUndefined, ev_type = JStr (js ''license.created''),
                  ev_createdAt = JStr sample_time_stale, ev_data = JObj []\<rparr>"
  let ?epoch = "\<lparr>ev_id = JUndefined, ev_type = JStr (js ''license.created''),
                  ev_createdAt = JNum 0, ev_data = JObj []\<rparr>"
  have p: "parsePayload sample_env (verifier sample_handler) payload_stale signature_stale None =
             Inr ?event"
    by (simp add: sample_handler_verifier sample_parse)
  have t: "truthy (ev_createdAt ?event)
           \<and> new_Date sample_env (ev_createdAt ?event) = Inr (Some 1704067200000)"
    by (simp add: sample_times_truthy sample_new_Date_values del: truthy.simps)
  have d: "\<bar>rat_of_int (current_time sample_env - 1704067200000) / 1000\<bar> > 300"
    by (simp add: sample_env_fields(6))
  have q: "parsePayload sample_env (verifier sample_handler) payload_stale signature_fresh None =
             Inl (WebhookVerificationError (js ''Invalid webhook signature''))"
    by (simp add: sample_handler_verifier parsePayload_unfold sample_verify_other)
  have e: "parsePayload sample_env (verifier sample_handler) payload_epoch signature_epoch None =
             Inr ?epoch \<and> \<not> truthy (ev_createdAt ?epoch)"
    by (simp add: sample_handler_verifier parsePayload_unfold sample_epoch)
  have stale: "handle sample_env sample_handler payload_stale signature_stale None =
     Inr (JObj [(js ''valid'', JBool False),
                (js ''error'', JStr (js ''Webhook timestamp is too old''))])"
    using handle_reports_failures [of sample_env sample_handler payload_stale signature_stale None]
      p t d by blast
  have bad: "handle sample_env sample_handler payload_stale signature_fresh None =
     Inr (JObj [(js ''valid'', JBool False),
                (js ''error'', JStr (err_message
                   (WebhookVerificationError (js ''Invalid webhook signature''))))])"
    using handle_reports_failures [of sample_env sample_handler payload_stale signature_fresh None]
      q by blast
  have epoch: "verifyTimestamp sample_env ?epoch None = Inr True"
    using handle_reports_failures [of sample_env sample_handler payload_epoch signature_epoch None]
      e by blast
  show ?thesis
    using stale bad epoch by (simp add: WebhookVerificationError_def)
qed

lemma spread_status_event:
  "spread [(js ''valid'', JBool True), (js ''event'', ev)]
          (JObj [(js ''status'', s), (js ''event'', t)]) =
   JObj [(js ''valid'', JBool True), (js ''event'', t), (js ''status'', s)]"
  by (simp add: spread_def js_def)

lemma handle_unknown:
  assumes "parsePayload env (verifier this) payload signature algorithm = Inr event"
    and "verifyTimestamp env event None = Inr True"
    and "Map_get (handlers this) (ev_type event) = None"
  shows "handle env this payload signature algorithm =
           Inr (JObj [(js ''valid'', JBool True), (js ''event'', ev_type event),
                      (js ''status'', JStr (js ''ignored''))])"
  using assms
  by (simp add: handle_unfold handleEvent_def handleUnknownEvent_def spread_status_event)

lemma Map_get_off: "Map_get (handlers (off this eventType)) (JStr eventType) = None"
  by (simp add: off_def Map_get_def delete_conv')

lemma verifier_on_off:
  "verifier (on h eventType handler) = verifier h"
  "verifier (off h eventType) = verifier h"
  by (simp_all add: on_def off_def)

text \<open>
  C8. For a payload that verifies, parses and passes the timestamp check, when no handler
  is registered for the event's type \<open>handle\<close> falls back to the unknown-event handler
  and returns \<open>{valid: true, event: type, status: "ignored"}\<close>, an envelope with no error.
  A type registered with \<open>on\<close> and then removed with \<open>off\<close> has no handler, so a payload of
  that type gets the same envelope.
\<close>

theorem unknown_event_ignored:
  "parsePayload env (verifier this) payload signature algorithm = Inr event
   \<and> verifyTimestamp env event None = Inr True \<longrightarrow>
     (Map_get (handlers this) (ev_type event) = None \<longrightarrow>
        handle env this payload signature algorithm =
          Inr (JObj [(js ''valid'', JBool True), (js ''event'', ev_type event),
                     (js ''status'', JStr (js ''ignored''))]))
   \<and> (\<forall>eventType handler. ev_type event = JStr eventType \<longrightarrow>
        handle env (off (on this eventType handler) eventType) payload signature algorithm =
          Inr (JObj [(js ''valid'', JBool True), (js ''event'', JStr eventType),
                     (js ''status'', JStr (js ''ignored''))]))"
proof (intro impI conjI allI)
  assume h: "parsePayload env (verifier this) payload signature algorithm = Inr event
   \<and> verifyTimestamp env event None = Inr True"
  show "handle env this payload signature algorithm =
          Inr (JObj [(js ''valid'', JBool True), (js ''event'', ev_type event),
                     (js ''status'', JStr (js ''ignored''))])"
    if "Map_get (handlers this) (ev_type event) = None"
    using h that by (simp add: handle_unknown)
  fix eventType handler
  assume t: "ev_type event = JStr eventType"
  let ?h = "off (on this eventType handler) eventType"
  have "parsePayload env (verifier ?h) payload signature algorithm = Inr event"
    using h by (simp add: verifier_on_off)
  moreover have "Map_get (handlers ?h) (ev_type event) = None"
    unfolding t by (rule Map_get_off)
  ultimately show "handle env ?h payload signature algorithm =
          Inr (JObj [(js ''valid'', JBool True), (js ''event'', JStr eventType),
                     (js ''status'', JStr (js ''ignored''))])"
    using h t handle_unknown [of env ?h payload signature algorithm event] by simp
qed

theorem unknown_event_ignored_witness:
  "handle sample_env sample_handler payload_unregistered signature_unregistered None =
     Inr (JObj [(js ''valid'', JBool True), (js ''event'', JStr (js ''unregistered.type'')),
                (js ''status'', JStr (js ''ignored''))])
   \<and> handle sample_env (off (on sample_handler (js ''x'') failing_handler) (js ''x''))
        payload_x signature_x None =
     Inr (JObj [(js ''valid'', JBool True), (js ''event'', JStr (js ''x'')),
                (js ''status'', JStr (js ''ignored''))])"
proof -
  let ?u = "\<lparr>ev_id = JUndefined, ev_type = JStr (js ''unregistered.type''),
              ev_createdAt = JUndefined, ev_data = JObj []\<rparr>"
  let ?x = "\<lparr>ev_id = JUndefined, ev_type = JStr (js ''x''),
              ev_createdAt = JUndefined, ev_data = JObj []\<rparr>"
  have pu: "parsePayload sample_env (verifier sample_handler) payload_unregistered
              signature_unregistered None = Inr ?u"
    by (simp add: sample_handler_verifier sample_parse)
  have px: "parsePayload sample_env (verifier sample_handler) payload_x signature_x None = Inr ?x"
    by (simp add: sample_handler_verifier sample_parse)
  have m: "Map_get (handlers sample_handler) (ev_type ?u) = None"
    by (simp add: sample_handler_def setupDefaultHandlers_def Map_get_def js_def)
  show ?thesis
    using unknown_event_ignored [of sample_env sample_handler payload_unregistered
        signature_unregistered None ?u]
      unknown_event_ignored [of sample_env sample_handler payload_x signature_x None ?x]
      pu px m sample_timely(1)
    by simp
qed

text \<open>
  C3. When a payload passes the signature and timestamp checks and is routed to a
  registered handler that throws, \<open>handle\<close> catches the error: it returns
  \<open>{valid: false, error: message}\<close>, with the message of a thrown Error and
  "Unknown error" for any other thrown value.
\<close>

theorem handler_error_is_caught:
  "parsePayload env (verifier this) payload signature algorithm = Inr event
   \<and> verifyTimestamp env event None = Inr True
   \<and> Map_get (handlers this) (ev_type event) = Some handler
   \<and> handler event = Inl error \<longrightarrow>
     handle env this payload signature algorithm =
       Inr (JObj [(js ''valid'', JBool False), (js ''error'', JStr (error_message error))])"
  by (simp add: handle_unfold handleEvent_def)

text \<open>
  A handler registered for the type \<open>x\<close> that throws \<open>new Error('boom')\<close>: \<open>handle\<close> returns
  the failure envelope and nothing propagates.
\<close>

theorem handler_error_counterexample:
  "failing_handler \<lparr>ev_id = JUndefined, ev_type = JStr (js ''x''),
                    ev_createdAt = JUndefined, ev_data = JObj []\<rparr> =
     Inl (ThrowError (JsError (js ''Error'') (js ''boom'')))
   \<and> handle sample_env (on sample_handler (js ''x'') failing_handler) payload_x signature_x None =
     Inr (JObj [(js ''valid'', JBool False), (js ''error'', JStr (js ''boom''))])"
  by (simp add: handle_unfold handleEvent_def verifier_on_off sample_handler_verifier
      sample_parse sample_timely Map_get_on failing_handler_def error_message_def)

theorem handler_error_is_caught_witness:
  "handle sample_env (on sample_handler (js ''x'') failing_handler) payload_x signature_x None =
     Inr (JObj [(js ''valid'', JBool False),
                (js ''error'', JStr (error_message (ThrowError (JsError (js ''Error'') (js ''boom'')))))])"
proof -
  let ?x = "\<lparr>ev_id = JUndefined, ev_type = JStr (js ''x''),
              ev_createdAt = JUndefined, ev_data = JObj []\<rparr>"
  let ?h = "on sample_handler (js ''x'') failing_handler"
  have p: "parsePayload sample_env (verifier ?h) payload_x signature_x None = Inr ?x"
    by (simp add: verifier_on_off sample_handler_verifier sample_parse)
  have m: "Map_get (handlers ?h) (ev_type ?x) = Some failing_handler"
    by (simp add: Map_get_on)
  have f: "failing_handler ?x = Inl (ThrowError (JsError (js ''Error'') (js ''boom'')))"
    by (simp add: failing_handler_def)
  show ?thesis
    using handler_error_is_caught [of sample_env ?h payload_x signature_x None ?x
        failing_handler "ThrowError (JsError (js ''Error'') (js ''boom''))"]
      p m f sample_timely(1)
    by simp
qed

text \<open>
  Whatever the payload, the envelope of an event routed to the default handler of
  \<open>license.created\<close> carries the type string under \<open>event\<close>.
\<close>

lemma handle_license_created:
  assumes "parsePayload env (verifier this) payload signature algorithm = Inr event"
    and "verifyTimestamp env event None = Inr True"
    and "ev_type event = JStr (js ''license.created'')"
    and "Map_get (handlers this) (JStr (js ''license.created'')) = Some handleLicenseCreated"
  shows "handle env this payload signature algorithm =
           Inr (JObj [(js ''valid'', JBool True), (js ''event'', JStr (js ''license.created'')),
                      (js ''status'', JStr (js ''processed''))])"
  using assms
  by (simp add: handle_unfold handleEvent_def handleLicenseCreated_def processed_def
      spread_status_event)

text \<open>
  The payload \<open>{"type":"license.created","createdAt":0}\<close> with its valid signature: the
  timestamp is the epoch, which \<open>new Date\<close> reads and which is decades outside the
  tolerance of 300 seconds, yet \<open>handle\<close> returns a valid envelope.
\<close>

theorem epoch_timestamp_counterexample:
  "parsePayload sample_env (verifier sample_handler) payload_epoch signature_epoch None =
     Inr \<lparr>ev_id = JUndefined, ev_type = JStr (js ''license.created''),
          ev_createdAt = JNum 0, ev_data = JObj []\<rparr>
   \<and> new_Date sample_env (JNum 0) = Inr (Some 0)
   \<and> \<bar>rat_of_int (current_time sample_env - 0) / 1000\<bar> > 300
   \<and> handle sample_env sample_handler payload_epoch signature_epoch None =
     Inr (JObj [(js ''valid'', JBool True), (js ''event'', JStr (js ''license.created'')),
                (js ''status'', JStr (js ''processed''))])"
proof -
  let ?epoch = "\<lparr>ev_id = JUndefined, ev_type = JStr (js ''license.created''),
                  ev_createdAt = JNum 0, ev_data = JObj []\<rparr>"
  have p: "parsePayload sample_env (verifier sample_handler) payload_epoch signature_epoch None =
             Inr ?epoch"
    by (simp add: sample_handler_verifier parsePayload_unfold sample_epoch)
  have t: "verifyTimestamp sample_env ?epoch None = Inr True"
    by (simp add: verifyTimestamp_unfold)
  have m: "Map_get (handlers sample_handler) (JStr (js ''license.created'')) =
             Some handleLicenseCreated"
    by (rule default_license_created [OF new_WebhookHandler_sample])
  have h: "handle sample_env sample_handler payload_epoch signature_epoch None =
     Inr (JObj [(js ''valid'', JBool True), (js ''event'', JStr (js ''license.created'')),
                (js ''status'', JStr (js ''processed''))])"
    using p t m by (intro handle_license_created [where event = ?epoch]) simp_all
  show ?thesis
    using p h by (simp add: sample_epoch sample_env_fields(6))
qed

text \<open>
  C2. The default handler of \<open>license.created\<close> in the recorded run: the payload verifies,
  parses and is timely, and the envelope is \<open>{valid: true, event: "license.created",
  status: "processed"}\<close>. The handler's result has an \<open>event\<close> property of its own, which
  the spread copies over the parsed event: the envelope's \<open>event\<close> is the type string,
  not the event record.
\<close>

theorem default_handler_overwrites_event:
  "parsePayload sample_env (verifier sample_handler) payload_fresh signature_fresh None =
     Inr \<lparr>ev_id = JUndefined, ev_type = JStr (js ''license.created''),
          ev_createdAt = JStr sample_time_fresh, ev_data = JObj []\<rparr>
   \<and> verifyTimestamp sample_env
       \<lparr>ev_id = JUndefined, ev_type = JStr (js ''license.created''),
        ev_createdAt = JStr sample_time_fresh, ev_data = JObj []\<rparr> None = Inr True
   \<and> handle sample_env sample_handler payload_fresh signature_fresh None =
     Inr (JObj [(js ''valid'', JBool True), (js ''event'', JStr (js ''license.created'')),
                (js ''status'', JStr (js ''processed''))])
   \<and> event_value \<lparr>ev_id = JUndefined, ev_type = JStr (js ''license.created''),
                   ev_createdAt = JStr sample_time_fresh, ev_data = JObj []\<rparr>
     \<noteq> JStr (js ''license.created'')"
proof -
  let ?event = "\<lparr>ev_id = JUndefined, ev_type = JStr (js ''license.created''),
                  ev_createdAt = JStr sample_time_fresh, ev_data = JObj []\<rparr>"
  have p: "parsePayload sample_env (verifier sample_handler) payload_fresh signature_fresh None =
             Inr ?event"
    by (simp add: sample_handler_verifier sample_parse)
  have t: "verifyTimestamp sample_env ?event None = Inr True"
    by (rule sample_timely)
  have m: "Map_get (handlers sample_handler) (JStr (js ''license.created'')) =
             Some handleLicenseCreated"
    by (rule default_license_created [OF new_WebhookHandler_sample])
  have h: "handle sample_env sample_handler payload_fresh signature_fresh None =
     Inr (JObj [(js ''valid'', JBool True), (js ''event'', JStr (js ''license.created'')),
                (js ''status'', JStr (js ''processed''))])"
    using p t m by (intro handle_license_created [where event = ?event]) simp_all
  have e: "event_value ?event \<noteq> JStr (js ''license.created'')"
    by (simp add: event_value_def)
  show ?thesis
    using p t h e by simp
qed

end
